theory Spec2Isabelle
  imports Main
begin

section \<open>JavaScript and Node primitives used by lib/assets.js\<close>

text \<open>
  A string is a list of characters, each a code unit below 256: the characters of
  ISO 8859-1.  The functions of this section model the built-ins the manager calls:
  \<^verbatim>\<open>String.prototype.toLowerCase\<close>, \<^verbatim>\<open>split\<close>, \<^verbatim>\<open>join\<close>, \<^verbatim>\<open>slice\<close> and the POSIX flavour
  of Node's \<^verbatim>\<open>path\<close> module.
\<close>

text \<open>The letters with a lower-case form: \<^verbatim>\<open>A\<close> to \<^verbatim>\<open>Z\<close>, and the accented capitals
  from code 0xC0 to 0xDE but for the multiplication sign 0xD7; the lower-case form is 32
  code units on.\<close>

definition upper_chars :: string where
  "upper_chars =
     ''ABCDEFGHIJKLMNOPQRSTUVWXYZ'' @
     [CHR 0xC0, CHR 0xC1, CHR 0xC2, CHR 0xC3, CHR 0xC4, CHR 0xC5, CHR 0xC6, CHR 0xC7, CHR 0xC8, CHR 0xC9,
      CHR 0xCA, CHR 0xCB, CHR 0xCC, CHR 0xCD, CHR 0xCE, CHR 0xCF, CHR 0xD0, CHR 0xD1, CHR 0xD2, CHR 0xD3,
      CHR 0xD4, CHR 0xD5, CHR 0xD6, CHR 0xD8, CHR 0xD9, CHR 0xDA, CHR 0xDB, CHR 0xDC, CHR 0xDD, CHR 0xDE]"

definition lower_chars :: string where
  "lower_chars =
     ''abcdefghijklmnopqrstuvwxyz'' @
     [CHR 0xE0, CHR 0xE1, CHR 0xE2, CHR 0xE3, CHR 0xE4, CHR 0xE5, CHR 0xE6, CHR 0xE7, CHR 0xE8, CHR 0xE9,
      CHR 0xEA, CHR 0xEB, CHR 0xEC, CHR 0xED, CHR 0xEE, CHR 0xEF, CHR 0xF0, CHR 0xF1, CHR 0xF2, CHR 0xF3,
      CHR 0xF4, CHR 0xF5, CHR 0xF6, CHR 0xF8, CHR 0xF9, CHR 0xFA, CHR 0xFB, CHR 0xFC, CHR 0xFD, CHR 0xFE]"

definition lower_char :: "char \<Rightarrow> char" where
  "lower_char c = (case map_of (zip upper_chars lower_chars) c of Some d \<Rightarrow> d | None \<Rightarrow> c)"

definition toLowerCase :: "string \<Rightarrow> string" where
  "toLowerCase s = map lower_char s"

text \<open>\<^verbatim>\<open>s.split(d)\<close> for a one-character separator: never the empty list.\<close>

fun split_on :: "char \<Rightarrow> string \<Rightarrow> string list" where
  "split_on d [] = [[]]"
| "split_on d (c # cs) =
     (if c = d then [] # split_on d cs
      else (case split_on d cs of
              w # ws \<Rightarrow> (c # w) # ws
            | [] \<Rightarrow> [[c]]))"

text \<open>\<^verbatim>\<open>xs.join(sep)\<close> on an array of strings.\<close>

fun join_with :: "string \<Rightarrow> string list \<Rightarrow> string" where
  "join_with sep [] = []"
| "join_with sep [x] = x"
| "join_with sep (x # y # ys) = x @ sep @ join_with sep (y # ys)"

text \<open>\<^verbatim>\<open>s.slice(0, n)\<close>: a negative \<open>n\<close> counts from the end.\<close>

definition slice0 :: "int \<Rightarrow> 'a list \<Rightarrow> 'a list" where
  "slice0 n xs = (if 0 \<le> n then take (nat n) xs else take (length xs - nat (- n)) xs)"

text \<open>\<^verbatim>\<open>path.basename(p)\<close>: the last segment, trailing separators ignored.\<close>

definition path_basename :: "string \<Rightarrow> string" where
  "path_basename p =
     rev (takeWhile (\<lambda>c. c \<noteq> CHR ''/'') (dropWhile (\<lambda>c. c = CHR ''/'') (rev p)))"

text \<open>\<^verbatim>\<open>path.basename(p, ext)\<close>: the extension is cut off when the base name ends with it
  and is longer than it.\<close>

definition ends_with :: "string \<Rightarrow> string \<Rightarrow> bool" where
  "ends_with s suffix = (length suffix \<le> length s \<and> drop (length s - length suffix) s = suffix)"

definition path_basename_ext :: "string \<Rightarrow> string \<Rightarrow> string" where
  "path_basename_ext p ext =
     (let b = path_basename p in
      if ext \<noteq> [] \<and> ext = p then []
      else if ext \<noteq> [] \<and> length ext < length b \<and> ends_with b ext
        then take (length b - length ext) b
      else b)"

text \<open>\<^verbatim>\<open>path.extname(p)\<close>: from the last dot of the base name, empty when there is no dot,
  when the only dot leads the base name, or when the base name is \<^verbatim>\<open>..\<close>.\<close>

definition path_extname :: "string \<Rightarrow> string" where
  "path_extname p =
     (let b = path_basename p;
          r = rev b;
          e = takeWhile (\<lambda>c. c \<noteq> CHR ''.'') r;
          rest = dropWhile (\<lambda>c. c \<noteq> CHR ''.'') r
      in if rest = [] \<or> tl rest = [] \<or> b = ''..'' then [] else CHR ''.'' # rev e)"

text \<open>\<^verbatim>\<open>path.dirname(p)\<close>: Node scans from the end down to index 1 for the separator that
  precedes the last segment.\<close>

definition path_dirname :: "string \<Rightarrow> string" where
  "path_dirname p =
     (if p = [] then ''.''
      else
        let hasRoot = (hd p = CHR ''/'');
            r = dropWhile (\<lambda>c. c \<noteq> CHR ''/'') (dropWhile (\<lambda>c. c = CHR ''/'') (rev (tl p)));
            end = length r
        in if r = [] then (if hasRoot then ''/'' else ''.'')
           else if hasRoot \<and> end = 1 then ''//''
           else take end p)"

text \<open>Resolution of \<^verbatim>\<open>.\<close> and \<^verbatim>\<open>..\<close> segments; the second argument is the stack of
  segments kept so far, last one first.\<close>

fun normalizeArray :: "bool \<Rightarrow> string list \<Rightarrow> string list \<Rightarrow> string list" where
  "normalizeArray allowAboveRoot stack [] = rev stack"
| "normalizeArray allowAboveRoot stack (p # ps) =
     (if p = ''.'' then normalizeArray allowAboveRoot stack ps
      else if p = ''..'' then
        (case stack of
           [] \<Rightarrow> normalizeArray allowAboveRoot (if allowAboveRoot then [''..''] else []) ps
         | s # st \<Rightarrow>
             if s = ''..'' then normalizeArray allowAboveRoot (''..'' # stack) ps
             else normalizeArray allowAboveRoot st ps)
      else normalizeArray allowAboveRoot (p # stack) ps)"

definition path_normalize :: "string \<Rightarrow> string" where
  "path_normalize p =
     (if p = [] then ''.''
      else
        let isAbsolute = (hd p = CHR ''/'');
            trailingSeparator = (last p = CHR ''/'');
            segments = filter (\<lambda>s. s \<noteq> []) (split_on (CHR ''/'') p);
            q = join_with ''/'' (normalizeArray (\<not> isAbsolute) [] segments)
        in if q = [] then (if isAbsolute then ''/'' else if trailingSeparator then ''./'' else ''.'')
           else (if isAbsolute then ''/'' else []) @ q @ (if trailingSeparator then ''/'' else []))"

text \<open>\<^verbatim>\<open>path.join(a, b, ...)\<close>: empty arguments are skipped, the rest is joined with the
  separator and normalised.\<close>

definition path_join :: "string list \<Rightarrow> string" where
  "path_join args =
     (let parts = filter (\<lambda>s. s \<noteq> []) args in
      if parts = [] then ''.'' else path_normalize (join_with ''/'' parts))"

text \<open>\<^verbatim>\<open>util.format\<close> is called with templates that are constants of lib/assets.js, all
  built of text and \<^verbatim>\<open>%s\<close>, and with strings for the arguments: the result is the template
  with each \<^verbatim>\<open>%s\<close> replaced by its argument, which the definitions below write out.  A
  string between double quotes is what \<^verbatim>\<open>format('"%s"', s)\<close> gives.\<close>

definition quoted :: "string \<Rightarrow> string" where
  "quoted s = [CHR 0x22] @ s @ [CHR 0x22]"

text \<open>The decimal digits of a natural number, and \<^verbatim>\<open>String(n)\<close> for an integer \<open>n\<close> of
  magnitude below \<open>10\<^sup>2\<^sup>1\<close>, where JavaScript prints all digits.\<close>

fun decimal :: "nat \<Rightarrow> string" where
  "decimal n =
     (if n < 10 then [''0123456789'' ! n]
      else decimal (n div 10) @ [''0123456789'' ! (n mod 10)])"

definition js_number :: "int \<Rightarrow> string" where
  "js_number n = (if n < 0 then ''-'' @ decimal (nat (- n)) else decimal (nat n))"

section \<open>The pattern of compiled asset names\<close>

text \<open>
  The constructor builds \<^verbatim>\<open>new RegExp(format('^%s-%s-', utils.escapeRegex(assetPrefix),
  '[0-9a-f]+?'))\<close>.  \<open>escapeRegex\<close> is the function of lib/utils.js.  The regular
  expressions that can arise are sequences of four kinds of atoms; a pattern source outside
  this fragment (a backslash of the prefix followed by a letter or a digit) has no model.
\<close>

definition escapeRegex :: "string \<Rightarrow> string" where
  "escapeRegex str =
     concat (map (\<lambda>c. if c \<in> set ''.*+?|()[]{}'' then [CHR 0x5C, c] else [c]) str)"

definition compiledPatternSource :: "string \<Rightarrow> string" where
  "compiledPatternSource assetPrefix = ''^'' @ escapeRegex assetPrefix @ ''-'' @ ''[0-9a-f]+?'' @ ''-''"

datatype rx = Lit char | Bol | Eol | HexPlusLazy

fun rx_parse :: "string \<Rightarrow> rx list option" where
  "rx_parse [] = Some []"
| "rx_parse (c # cs) =
     (if c = CHR 0x5C then
        (case cs of
           [] \<Rightarrow> None
         | d # ds \<Rightarrow>
             if d \<in> set ''^$.*+?|()[]{}/-'' \<or> d = CHR 0x5C
             then map_option (\<lambda>r. Lit d # r) (rx_parse ds) else None)
      else if c = CHR ''^'' then map_option (\<lambda>r. Bol # r) (rx_parse cs)
      else if c = CHR ''$'' then map_option (\<lambda>r. Eol # r) (rx_parse cs)
      else if c = CHR ''['' then
        (if take 9 cs = ''0-9a-f]+?'' then map_option (\<lambda>r. HexPlusLazy # r) (rx_parse (drop 9 cs))
         else None)
      else if c \<in> set ''.*+?|()]{}'' then None
      else map_option (\<lambda>r. Lit c # r) (rx_parse cs))"

definition is_hex :: "char \<Rightarrow> bool" where
  "is_hex c = (c \<in> set ''0123456789abcdef'')"

text \<open>Matching at one position: \<open>atStart\<close> tells whether the position is the start of
  the input; \<open>inRun\<close> that a run of \<^verbatim>\<open>[0-9a-f]+?\<close> has taken at least one character and
  may stop or go on.\<close>

function rx_match :: "rx list \<Rightarrow> bool \<Rightarrow> bool \<Rightarrow> string \<Rightarrow> bool" where
  "rx_match [] inRun atStart s = True"
| "rx_match (Lit c # as) inRun atStart s =
     (case s of [] \<Rightarrow> False | x # xs \<Rightarrow> x = c \<and> rx_match as False False xs)"
| "rx_match (Bol # as) inRun atStart s = (atStart \<and> rx_match as False atStart s)"
| "rx_match (Eol # as) inRun atStart s = (s = [] \<and> rx_match as False atStart s)"
| "rx_match (HexPlusLazy # as) inRun atStart s =
     ((inRun \<and> rx_match as False atStart s) \<or>
      (case s of [] \<Rightarrow> False | x # xs \<Rightarrow> is_hex x \<and> rx_match (HexPlusLazy # as) True False xs))"
  by pat_completeness auto
termination
  by (relation "measure (\<lambda>(as, inRun, atStart, s). 2 * length as + 2 * length s + (if inRun then 1 else 0))") auto

text \<open>\<^verbatim>\<open>pattern.test(s)\<close>: a match at some position of the input.\<close>

fun rx_search :: "rx list \<Rightarrow> bool \<Rightarrow> string \<Rightarrow> bool" where
  "rx_search as atStart [] = rx_match as False atStart []"
| "rx_search as atStart (c # cs) = (rx_match as False atStart (c # cs) \<or> rx_search as False cs)"

definition rx_test :: "rx list \<Rightarrow> string \<Rightarrow> bool" where
  "rx_test as s = rx_search as True s"

section \<open>Data model\<close>

text \<open>
  Values read from the manifest are JSON values.  A number is held as the text JavaScript
  prints it with: that text identifies the number (\<^verbatim>\<open>-0\<close> apart, which equals \<^verbatim>\<open>0\<close>), and
  the manager does nothing with a number of the manifest but compare it and print it.  A
  property that is \<^verbatim>\<open>undefined\<close> is \<open>None\<close>.
\<close>

datatype json =
    JNull
  | JBool bool
  | JNum string
  | JStr string
  | JArr "json list"
  | JObj "(string \<times> json) list"

text \<open>An indexed file: \<^verbatim>\<open>{ name, mtime, hash }\<close>.  The modification time is a time value
  in milliseconds, an integer of magnitude at most \<open>8.64 \<times> 10\<^sup>1\<^sup>5\<close>; the hash is missing until
  \<open>hashAssets\<close> has run, and is whatever the manifest stored when it is reused.\<close>

record asset_record =
  name :: string
  mtime :: int
  hash :: "json option"

text \<open>
  The manager keeps its dictionaries in objects made with \<^verbatim>\<open>{}\<close>, and tests them with
  \<^verbatim>\<open>key in obj\<close> and \<^verbatim>\<open>obj[key]\<close>.  Such an object has the properties it was given (a map
  here) and those it inherits from \<^verbatim>\<open>Object.prototype\<close>, under the names below: the
  value of \<^verbatim>\<open>__proto__\<close> is the prototype object itself, the value of every other name is a
  function.  \<open>Inherited k\<close> stands for the value inherited under the name \<open>k\<close>.  A value
  of either kind is truthy; \<^verbatim>\<open>undefined\<close> is \<open>None\<close>.
\<close>

definition objectPrototype :: "string list" where
  "objectPrototype =
     [''constructor'', ''__defineGetter__'', ''__defineSetter__'', ''hasOwnProperty'',
      ''__lookupGetter__'', ''__lookupSetter__'', ''isPrototypeOf'', ''propertyIsEnumerable'',
      ''toString'', ''valueOf'', ''__proto__'', ''toLocaleString'']"

definition inherited :: "string \<Rightarrow> bool" where
  "inherited k = (k \<in> set objectPrototype)"

datatype 'a property = Own 'a | Inherited string

text \<open>\<^verbatim>\<open>key in obj\<close> and \<^verbatim>\<open>obj[key]\<close>.\<close>

definition hasProperty :: "(string \<rightharpoonup> 'a) \<Rightarrow> string \<Rightarrow> bool" where
  "hasProperty obj k = (obj k \<noteq> None \<or> inherited k)"

definition getProperty :: "(string \<rightharpoonup> 'a) \<Rightarrow> string \<Rightarrow> 'a property option" where
  "getProperty obj k =
     (case obj k of
        Some v \<Rightarrow> Some (Own v)
      | None \<Rightarrow> if inherited k then Some (Inherited k) else None)"

text \<open>What the resolver takes for an asset is a value it read from the index: an indexed
  file, or a value the index inherits.  Of such a value it reads \<^verbatim>\<open>.hash\<close> and \<^verbatim>\<open>.name\<close>: an
  inherited function has no hash, and its name is the name it is inherited under
  (\<^verbatim>\<open>Object\<close> for \<^verbatim>\<open>constructor\<close>); the prototype object has neither.\<close>

definition entryHash :: "asset_record property \<Rightarrow> json option" where
  "entryHash a = (case a of Own file \<Rightarrow> hash file | Inherited k \<Rightarrow> None)"

definition entryName :: "asset_record property \<Rightarrow> string option" where
  "entryName a =
     (case a of
        Own file \<Rightarrow> Some (name file)
      | Inherited k \<Rightarrow>
          if k = ''__proto__'' then None
          else if k = ''constructor'' then Some ''Object''
          else Some k)"

text \<open>\<^verbatim>\<open>options.include\<close> and \<^verbatim>\<open>options.dependencies\<close> are a string or an array of
  strings.\<close>

datatype globs = GlobString string | GlobArray "string list"

text \<open>The options of one call: \<^verbatim>\<open>{ include, dependencies, prefix, attributes }\<close>, each
  optional.  \<open>asset\<close> and \<open>assetPath\<close> take \<^verbatim>\<open>{}\<close> for options that are omitted.\<close>

record call_options =
  opt_include :: "globs option"
  opt_dependencies :: "globs option"
  opt_prefix :: "string option"
  opt_attributes :: "(string \<times> string) list option"

definition noOptions :: call_options where
  "noOptions = \<lparr> opt_include = None, opt_dependencies = None, opt_prefix = None, opt_attributes = None \<rparr>"

text \<open>A compiler registration \<^verbatim>\<open>{ output, compile, extname }\<close>; the compile function
  yields an error message or the compiled text.\<close>

record compiler =
  c_output :: string
  c_compile :: "string \<Rightarrow> string + string"
  c_extname :: string

text \<open>The manager's options (\<open>defaultOptions\<close> merged with the user's).  Objects keyed by
  extension are association lists in enumeration order; they are read under
  extensions only (the empty string, or a string that starts with a dot), which are not
  among the inherited names.  \<open>hashName\<close> is the option \<^verbatim>\<open>hash\<close>.  A tag formatter takes
  the URL and the attributes, a compressor yields an error message or the compressed
  text.\<close>

record manager_options =
  assetPrefix :: string
  hashName :: string
  hashLength :: int
  manifest :: string
  servePrefix :: string
  urlPrefix :: string
  tags :: "(string \<times> (string \<Rightarrow> (string \<times> string) list \<Rightarrow> string)) list"
  compilers :: "(string \<times> compiler) list"
  compressors :: "(string \<times> (string \<Rightarrow> string + string)) list"
  compress :: bool
  wrapJavascript :: bool
  javascriptIIFE :: string
  separateBundles :: bool

text \<open>An entry of \<^verbatim>\<open>pendingAssets\<close>: \<^verbatim>\<open>{ path, assets, dependencies, options }\<close>.\<close>

record pending_asset =
  p_path :: string
  p_assets :: "asset_record property list"
  p_dependencies :: "asset_record property list"
  p_options :: call_options

datatype event = ErrorEvent string | ChangeEvent string

text \<open>
  The manager.  \<open>assets\<close> is the index: the indexed files under their names in lower
  case, in enumeration order.  The index is one whose prototype is \<^verbatim>\<open>Object.prototype\<close>,
  as \<open>indexAssets\<close> leaves it for a directory without a file named \<^verbatim>\<open>__proto__\<close> (the
  assignment under that name would add no key, but make the file the prototype of the
  index).  The other dictionaries are maps.  A waiting request
  is the number of its continuation.  The last fields are the manager's surroundings:
  whether an \<^verbatim>\<open>'error'\<close> listener is registered, the events emitted so far, the files
  handed to \<^verbatim>\<open>fs.unlink\<close>, and the collaborators that are not part of lib/assets.js:
  \<^verbatim>\<open>utils.hashString\<close>, \<^verbatim>\<open>utils.hashFile\<close>, \<^verbatim>\<open>minimatch\<close>, and \<^verbatim>\<open>util.format\<close> as it is
  applied to a configured template and one string.
\<close>

record manager =
  dir :: string
  options :: manager_options
  compiledPattern :: "rx list"
  assets :: "(string \<times> asset_record) list"
  compiledAssets :: "string \<rightharpoonup> string list"
  pendingAssets :: "string \<rightharpoonup> pending_asset"
  compilingNow :: "string \<rightharpoonup> nat list"
  reverseCompilerIndex :: "string \<rightharpoonup> compiler list"
  errorListeners :: bool
  events :: "event list"
  unlinked :: "string list"
  hashString :: "string \<Rightarrow> string \<Rightarrow> string"
  hashFile :: "string \<Rightarrow> string \<Rightarrow> string"
  minimatch :: "string \<Rightarrow> string \<Rightarrow> bool"
  format :: "string \<Rightarrow> string \<Rightarrow> string"

text \<open>\<^verbatim>\<open>this.assets[filename]\<close>.  A name is \<^verbatim>\<open>in\<close> the index exactly when the index has a
  value under it.\<close>

definition assetAt :: "manager \<Rightarrow> string \<Rightarrow> asset_record property option" where
  "assetAt m filename = getProperty (map_of (assets m)) filename"

text \<open>
  \<^verbatim>\<open>identifier in this.pendingAssets\<close>.  The dictionary of pending assets is the one the
  manager assigns to under names it is given: the assignment
  \<^verbatim>\<open>this.pendingAssets['__proto__'] = entry\<close> makes the entry the prototype of the dictionary.
  The entry is then read back under \<^verbatim>\<open>__proto__\<close> (the map holds it under that name), and
  the dictionary inherits the four properties of the entry, besides those of
  \<^verbatim>\<open>Object.prototype\<close>, which the entry inherits itself.
\<close>

definition inPending :: "manager \<Rightarrow> string \<Rightarrow> bool" where
  "inPending m identifier =
     (hasProperty (pendingAssets m) identifier
      \<or> (pendingAssets m ''__proto__'' \<noteq> None
           \<and> identifier \<in> set [''path'', ''assets'', ''dependencies'', ''options'']))"

text \<open>\<^verbatim>\<open>this.pendingAssets[identifier].options\<close> for an identifier in the dictionary: the
  options of an entry; \<^verbatim>\<open>undefined\<close> for any other value, as neither a function, nor the
  prototype object, nor a path, an array or an options object has such a property.\<close>

definition existingOptions :: "manager \<Rightarrow> string \<Rightarrow> call_options option" where
  "existingOptions m identifier = map_option p_options (pendingAssets m identifier)"

text \<open>How a call ends: with a value, or with an exception that leaves it.\<close>

datatype 'a completion = Returned 'a | Thrown string

text \<open>A step that a TypeError may leave.\<close>

datatype 'a attempt = Done 'a | TypeError

text \<open>\<^verbatim>\<open>this.emit('error', new Error(message))\<close>: Node's emitter throws the error when
  no listener is registered for \<^verbatim>\<open>'error'\<close>.\<close>

definition emit_error :: "manager \<Rightarrow> string \<Rightarrow> manager option" where
  "emit_error m message =
     (if errorListeners m then Some (m\<lparr>events := events m @ [ErrorEvent message]\<rparr>) else None)"

text \<open>The statement pair \<^verbatim>\<open>this.emit('error', new Error(message)); return '';\<close>.\<close>

definition fail_with :: "manager \<Rightarrow> string \<Rightarrow> string completion \<times> manager" where
  "fail_with m message =
     (case emit_error m message of
        Some m' \<Rightarrow> (Returned [], m')
      | None \<Rightarrow> (Thrown message, m))"

section \<open>Helpers of lib/utils.js\<close>

text \<open>Modelled from the spec: \<^verbatim>\<open>utils.stripDuplicates\<close> is not in the lib/utils.js at
  hand; the specification has it deduplicate while preserving first-occurrence order.\<close>

definition stripDuplicates :: "'a list \<Rightarrow> 'a list" where
  "stripDuplicates xs = rev (remdups (rev xs))"

text \<open>Modelled from the spec: \<^verbatim>\<open>utils.copy\<close> is not in the lib/utils.js at hand; values
  are immutable here, so a copy is the value.\<close>

definition copy :: "'a \<Rightarrow> 'a" where
  "copy v = v"

text \<open>Modelled from the spec: \<^verbatim>\<open>utils.mergeDefaults(options, defaults)\<close> is not in the
  lib/utils.js at hand; the specification has it merge the options over the defaults, deeply:
  a key set in the options wins, a key only the defaults have is taken from them, and the
  attribute objects are merged key by key in the same way.  Options or defaults that are
  \<^verbatim>\<open>undefined\<close> count as an object without keys, as the constructor relies on for its
  own options.\<close>

definition merge_option :: "'a option \<Rightarrow> 'a option \<Rightarrow> 'a option" where
  "merge_option new old = (case new of Some v \<Rightarrow> Some v | None \<Rightarrow> old)"

definition merge_attributes ::
    "(string \<times> string) list option \<Rightarrow> (string \<times> string) list option \<Rightarrow> (string \<times> string) list option" where
  "merge_attributes new old =
     (case (new, old) of
        (Some a, Some b) \<Rightarrow> Some (a @ filter (\<lambda>kv. fst kv \<notin> fst ` set a) b)
      | (Some a, None) \<Rightarrow> Some a
      | (None, _) \<Rightarrow> old)"

definition orEmpty :: "call_options option \<Rightarrow> call_options" where
  "orEmpty opts = (case opts of Some opts' \<Rightarrow> opts' | None \<Rightarrow> noOptions)"

definition mergeDefaults :: "call_options option \<Rightarrow> call_options option \<Rightarrow> call_options" where
  "mergeDefaults opts defaults =
     \<lparr> opt_include = merge_option (opt_include (orEmpty opts)) (opt_include (orEmpty defaults)),
       opt_dependencies = merge_option (opt_dependencies (orEmpty opts)) (opt_dependencies (orEmpty defaults)),
       opt_prefix = merge_option (opt_prefix (orEmpty opts)) (opt_prefix (orEmpty defaults)),
       opt_attributes = merge_attributes (opt_attributes (orEmpty opts)) (opt_attributes (orEmpty defaults)) \<rparr>"

section \<open>Names of compiled assets\<close>

text \<open>\<^verbatim>\<open>format('%s-%s-%s', assetPrefix, hash, filename)\<close> on three strings.\<close>

definition getCompiledAssetFilename :: "manager \<Rightarrow> string \<Rightarrow> string \<Rightarrow> string" where
  "getCompiledAssetFilename m filename h =
     assetPrefix (options m) @ ''-'' @ h @ ''-'' @ filename"

definition isCompiledAsset :: "manager \<Rightarrow> string \<Rightarrow> bool" where
  "isCompiledAsset m file = rx_test (compiledPattern m) (path_basename file)"

definition getCanonicalPath :: "string \<Rightarrow> string" where
  "getCanonicalPath file =
     (let dir = path_dirname file;
          filename = path_basename file;
          canonical = join_with ''-'' (drop 2 (split_on (CHR ''-'') filename))
      in path_join [dir, canonical])"

section \<open>Glob expansion\<close>

text \<open>\<^verbatim>\<open>var isGlob = /[*?{}]/\<close> and its \<^verbatim>\<open>test\<close>.\<close>

definition isGlob :: "string \<Rightarrow> bool" where
  "isGlob g = list_ex (\<lambda>c. c = CHR ''*'' \<or> c = CHR ''?'' \<or> c = CHR ''{'' \<or> c = CHR ''}'') g"

text \<open>The inner loop over the index: the flag \<open>matched\<close> and the names pushed.\<close>

fun matchAssets ::
    "(string \<Rightarrow> string \<Rightarrow> bool) \<Rightarrow> string \<Rightarrow> string list \<Rightarrow> bool \<times> string list \<Rightarrow> bool \<times> string list" where
  "matchAssets mm g [] acc = acc"
| "matchAssets mm g (filename # rest) (matched, filenames) =
     (if mm filename g then matchAssets mm g rest (True, filenames @ [filename])
      else matchAssets mm g rest (matched, filenames))"

text \<open>The outer loop; \<open>Inl\<close> is the message of the error thrown.\<close>

fun expandGlobs_loop :: "manager \<Rightarrow> string list \<Rightarrow> string list \<Rightarrow> string + string list" where
  "expandGlobs_loop m [] filenames = Inr filenames"
| "expandGlobs_loop m (g # gs) filenames =
     (if \<not> isGlob g then expandGlobs_loop m gs (filenames @ [g])
      else
        (case matchAssets (minimatch m) g (map fst (assets m)) (False, filenames) of
           (matched, filenames') \<Rightarrow>
             if \<not> matched then Inl (''No assets matched the pattern '' @ quoted g)
             else expandGlobs_loop m gs filenames'))"

definition expandGlobs :: "manager \<Rightarrow> globs \<Rightarrow> string + string list" where
  "expandGlobs m gl =
     expandGlobs_loop m (case gl of GlobString g \<Rightarrow> [g] | GlobArray gs \<Rightarrow> gs) []"

section \<open>Resolution of identifiers\<close>

text \<open>\<^verbatim>\<open>if (options.include)\<close>: an empty string is falsy, an array never is.\<close>

definition truthy :: "globs \<Rightarrow> bool" where
  "truthy g = (case g of GlobString s \<Rightarrow> s \<noteq> [] | GlobArray gs \<Rightarrow> True)"

definition given :: "globs option \<Rightarrow> globs option" where
  "given g = (case g of Some gl \<Rightarrow> if truthy gl then Some gl else None | None \<Rightarrow> None)"

text \<open>\<^verbatim>\<open>String(v)\<close>, and the text \<^verbatim>\<open>Array.prototype.join\<close> gives an element:
  \<^verbatim>\<open>undefined\<close> and \<^verbatim>\<open>null\<close> are the empty string.\<close>

fun js_string :: "json \<Rightarrow> string" where
  "js_string JNull = ''null''"
| "js_string (JBool b) = (if b then ''true'' else ''false'')"
| "js_string (JNum n) = n"
| "js_string (JStr s) = s"
| "js_string (JArr xs) = join_with '','' (map (\<lambda>x. if x = JNull then [] else js_string x) xs)"
| "js_string (JObj kvs) = ''[object Object]''"

definition join_element :: "json option \<Rightarrow> string" where
  "join_element v = (case v of None \<Rightarrow> [] | Some j \<Rightarrow> if j = JNull then [] else js_string j)"

text \<open>Lines 724 to 732 of \<open>assetPath\<close>: the identifier in lower case, with a compiler's
  extension replaced by the compiler's output extension.\<close>

definition remapIdentifier :: "manager \<Rightarrow> string \<Rightarrow> string" where
  "remapIdentifier m identifier0 =
     (let identifier = toLowerCase identifier0;
          extname = path_extname identifier
      in case map_of (compilers (options m)) extname of
           Some c \<Rightarrow>
             (let dirname = (if CHR ''/'' \<in> set identifier then path_dirname identifier else []);
                  outputExt = c_output c
              in path_join [dirname, path_basename_ext identifier extname @ outputExt])
         | None \<Rightarrow> identifier)"

text \<open>Lines 749 to 759: the names of a bundle, or the identifier alone.\<close>

definition bundleFilenames :: "manager \<Rightarrow> string \<Rightarrow> call_options \<Rightarrow> string + string list" where
  "bundleFilenames m identifier opts =
     (case given (opt_include opts) of
        Some inc \<Rightarrow>
          (case expandGlobs m inc of
             Inl err \<Rightarrow> Inl (err @ '' when building asset '' @ quoted identifier)
           | Inr filenames \<Rightarrow> Inr filenames)
      | None \<Rightarrow> Inr [identifier])"

text \<open>Lines 784 to 796: the loop over the compilers that produce the extension.  The
  first component is \<^verbatim>\<open>this.assets[uncompiledFilename]\<close> for the first name that is
  \<^verbatim>\<open>in\<close> the index.\<close>

fun findUncompiled ::
    "manager \<Rightarrow> string \<Rightarrow> string \<Rightarrow> compiler list \<Rightarrow> string list
      \<Rightarrow> asset_record property option \<times> string list" where
  "findUncompiled m filename base [] tried = (None, tried)"
| "findUncompiled m filename base (c # cs) tried =
     (let uncompiledFilename = base @ c_extname c in
      if uncompiledFilename = filename then findUncompiled m filename base cs tried
      else
        (case assetAt m uncompiledFilename of
           Some a \<Rightarrow> (Some a, tried)
         | None \<Rightarrow> findUncompiled m filename base cs (tried @ [uncompiledFilename])))"

text \<open>Lines 799 to 805: the message; \<open>tried\<close> is \<open>None\<close> for \<^verbatim>\<open>false\<close>.\<close>

definition notFoundMessage :: "string \<Rightarrow> call_options \<Rightarrow> string \<Rightarrow> string list option \<Rightarrow> string" where
  "notFoundMessage filename opts identifier tried =
     ''Asset '' @ quoted filename @ '' could not be found''
     @ (if given (opt_include opts) \<noteq> None then '' when building asset '' @ quoted identifier else [])
     @ (case tried of
          Some (t # ts) \<Rightarrow> '' (tried '' @ quoted (join_with (quoted '', '') (t # ts)) @ '')''
        | _ \<Rightarrow> [])"

text \<open>Lines 772 to 810: one round of the loop over the file names.  The value pushed is
  \<^verbatim>\<open>this.assets[filename]\<close>, for the name or for the name the compilers gave.\<close>

definition resolveFilename ::
    "manager \<Rightarrow> string \<Rightarrow> call_options \<Rightarrow> string \<Rightarrow> string + asset_record property" where
  "resolveFilename m identifier opts filename0 =
     (let filename = toLowerCase filename0 in
      case assetAt m filename of
        Some a \<Rightarrow> Inr a
      | None \<Rightarrow>
          (let extname = path_extname filename;
               dirname = (if CHR ''/'' \<in> set filename then path_dirname filename else []);
               base = path_join [dirname, path_basename_ext filename extname]
           in case reverseCompilerIndex m extname of
                None \<Rightarrow> Inl (notFoundMessage filename opts identifier None)
              | Some cs \<Rightarrow>
                  (case findUncompiled m filename base cs [] of
                     (Some a, tried) \<Rightarrow> Inr a
                   | (None, tried) \<Rightarrow> Inl (notFoundMessage filename opts identifier (Some tried)))))"

fun resolveFilenames ::
    "manager \<Rightarrow> string \<Rightarrow> call_options \<Rightarrow> string list \<Rightarrow> asset_record property list
      \<Rightarrow> string + asset_record property list" where
  "resolveFilenames m identifier opts [] found = Inr found"
| "resolveFilenames m identifier opts (f # fs) found =
     (case resolveFilename m identifier opts f of
        Inl message \<Rightarrow> Inl message
      | Inr a \<Rightarrow> resolveFilenames m identifier opts fs (found @ [a]))"

text \<open>Lines 815 to 833: the dependencies, looked up as they are written.\<close>

fun findDependencies ::
    "manager \<Rightarrow> string list \<Rightarrow> asset_record property list \<Rightarrow> string + asset_record property list" where
  "findDependencies m [] found = Inr found"
| "findDependencies m (dependency # ds) found =
     (case assetAt m dependency of
        None \<Rightarrow> Inl (''Failed to locate '' @ quoted dependency)
      | Some a \<Rightarrow> findDependencies m ds (found @ [a]))"

definition resolveDependencies ::
    "manager \<Rightarrow> string \<Rightarrow> call_options \<Rightarrow> string + asset_record property list" where
  "resolveDependencies m identifier opts =
     (case given (opt_dependencies opts) of
        None \<Rightarrow> Inr []
      | Some deps \<Rightarrow>
          (case expandGlobs m deps of
             Inl err \<Rightarrow> Inl (err @ '' when finding dependencies for '' @ quoted identifier)
           | Inr dependencyFilenames \<Rightarrow>
               (case findDependencies m (stripDuplicates dependencyFilenames) [] of
                  Inl err \<Rightarrow> Inl (err @ '' when finding dependencies for '' @ quoted identifier)
                | Inr found \<Rightarrow> Inr found)))"

text \<open>Lines 836 to 840: the hashes joined with a colon, hashed, and cut to the hash
  length.\<close>

definition assetHashes :: "asset_record property list \<Rightarrow> string" where
  "assetHashes as = join_with '':'' (map (\<lambda>a. join_element (entryHash a)) as)"

definition fingerprint ::
    "manager \<Rightarrow> asset_record property list \<Rightarrow> asset_record property list \<Rightarrow> string" where
  "fingerprint m found dependencies =
     slice0 (hashLength (options m))
       (hashString m (assetHashes (found @ dependencies)) (hashName (options m)))"

text \<open>Lines 843 to 866: the output name, the pending entry, and the removal of older
  compiled versions.  What \<^verbatim>\<open>this.compiledAssets[identifier]\<close> inherits is truthy and has
  no \<^verbatim>\<open>filter\<close>: calling it throws a TypeError, after the entry has been stored.\<close>

definition assetFilenameOf :: "manager \<Rightarrow> string \<Rightarrow> string \<Rightarrow> string" where
  "assetFilenameOf m identifier h =
     (let canonical = path_basename identifier;
          assetDirname = (if CHR ''/'' \<in> set identifier then path_dirname identifier else [])
      in path_join [assetDirname, getCompiledAssetFilename m canonical h])"

definition definePending ::
    "manager \<Rightarrow> string \<Rightarrow> call_options \<Rightarrow> asset_record property list \<Rightarrow> asset_record property list
      \<Rightarrow> string completion \<times> manager" where
  "definePending m identifier opts found dependencies =
     (let assetFilename = assetFilenameOf m identifier (fingerprint m found dependencies);
          assetPath = path_join [servePrefix (options m), assetFilename];
          m1 = m\<lparr>pendingAssets := (pendingAssets m)(identifier \<mapsto>
                 \<lparr> p_path = assetPath, p_assets = found, p_dependencies = dependencies,
                   p_options = opts \<rparr>)\<rparr>
      in case getProperty (compiledAssets m1) identifier of
           None \<Rightarrow> (Returned assetPath, m1)
         | Some (Inherited k) \<Rightarrow> (Thrown ''TypeError'', m1)
         | Some (Own existing) \<Rightarrow>
             (Returned assetPath,
              m1\<lparr>compiledAssets := (compiledAssets m1)(identifier \<mapsto>
                     filter (\<lambda>file. file = assetFilename) existing),
                 unlinked := unlinked m1 @
                     map (\<lambda>file. path_join [dir m1, file])
                       (filter (\<lambda>file. file \<noteq> assetFilename) existing)\<rparr>))"

text \<open>Lines 742 to 866: resolution of a normalised identifier.\<close>

definition resolveAsset :: "manager \<Rightarrow> string \<Rightarrow> call_options \<Rightarrow> string completion \<times> manager" where
  "resolveAsset m identifier opts =
     (case bundleFilenames m identifier opts of
        Inl message \<Rightarrow> fail_with m message
      | Inr filenames0 \<Rightarrow>
          (let filenames = stripDuplicates filenames0 in
           if filenames = [] then fail_with m ''No assets were defined''
           else
             (case resolveFilenames m identifier opts filenames [] of
                Inl message \<Rightarrow> fail_with m message
              | Inr found \<Rightarrow>
                  (case resolveDependencies m identifier opts of
                     Inl message \<Rightarrow> fail_with m message
                   | Inr dependencies \<Rightarrow> definePending m identifier opts found dependencies))))"

text \<open>\<open>Manager.prototype.assetPath\<close>, called with options (\<open>noOptions\<close> when they are
  omitted).\<close>

function assetPath :: "manager \<Rightarrow> string \<Rightarrow> call_options \<Rightarrow> bool \<Rightarrow> string completion \<times> manager" where
  "assetPath m identifier0 opts force =
     (if \<not> force \<and> inPending m (remapIdentifier m identifier0) then
        assetPath m (remapIdentifier m identifier0)
          (mergeDefaults (Some (copy opts)) (existingOptions m (remapIdentifier m identifier0))) True
      else resolveAsset m (remapIdentifier m identifier0) opts)"
  by pat_completeness auto
termination
  by (relation "measure (\<lambda>(m, identifier, opts, force). if force then 0 else 1)")
     (auto split: if_splits)

text \<open>Lines 704 to 711 of \<open>assetUrl\<close>: \<^verbatim>\<open>this.options.urlPrefix || options.prefix\<close> and
  the join.  The options are the argument as it was passed: reading \<^verbatim>\<open>.prefix\<close> of
  options that were omitted throws a TypeError (\<open>None\<close>).\<close>

definition chosenPrefix :: "manager \<Rightarrow> call_options option \<Rightarrow> string option option" where
  "chosenPrefix m opts =
     (if urlPrefix (options m) \<noteq> [] then Some (Some (urlPrefix (options m)))
      else map_option opt_prefix opts)"

definition prefixUrl :: "string option \<Rightarrow> string \<Rightarrow> string" where
  "prefixUrl prefix url =
     (case prefix of
        None \<Rightarrow> url
      | Some p \<Rightarrow>
          if p = [] then url
          else if url \<noteq> [] \<and> hd url = CHR ''/'' \<and> last p = CHR ''/'' then slice0 (- 1) p @ url
          else p @ url)"

text \<open>\<open>Manager.prototype.assetUrl\<close>; the options are \<open>None\<close> when the argument is
  omitted.\<close>

function assetUrl ::
    "manager \<Rightarrow> string \<Rightarrow> call_options option \<Rightarrow> bool \<Rightarrow> string completion \<times> manager" where
  "assetUrl m identifier0 opts force =
     (if \<not> force \<and> inPending m (toLowerCase identifier0) then
        assetUrl m (toLowerCase identifier0)
          (Some (mergeDefaults (copy opts) (existingOptions m (toLowerCase identifier0)))) True
      else
        (case assetPath m (toLowerCase identifier0) (orEmpty opts) False of
           (Thrown e, m') \<Rightarrow> (Thrown e, m')
         | (Returned url, m') \<Rightarrow>
             if url = [] then (Returned [], m')
             else
               (case chosenPrefix m' opts of
                  None \<Rightarrow> (Thrown ''TypeError'', m')
                | Some prefix \<Rightarrow> (Returned (prefixUrl prefix url), m'))))"
  by pat_completeness auto
termination
  by (relation "measure (\<lambda>(m, identifier, opts, force). if force then 0 else 1)")
     (auto split: if_splits)

text \<open>The defining equations of the two functions are used by name.\<close>

declare assetPath.simps [simp del]
declare assetUrl.simps [simp del]

text \<open>The \<^verbatim>\<open>include.map(...)\<close> of \<open>asset\<close>: the identifiers in order, each call on the
  manager the call before it left.\<close>

fun asset_map ::
    "(manager \<Rightarrow> string \<Rightarrow> (string completion \<times> manager) option) \<Rightarrow> string list \<Rightarrow> manager
      \<Rightarrow> (string list completion \<times> manager) option" where
  "asset_map f [] m = Some (Returned [], m)"
| "asset_map f (identifier # rest) m =
     (case f m identifier of
        None \<Rightarrow> None
      | Some (Thrown e, m') \<Rightarrow> Some (Thrown e, m')
      | Some (Returned tag, m') \<Rightarrow>
          (case asset_map f rest m' of
             None \<Rightarrow> None
           | Some (Thrown e, m'') \<Rightarrow> Some (Thrown e, m'')
           | Some (Returned tags', m'') \<Rightarrow> Some (Returned (tag # tags'), m'')))"

text \<open>Lines 673 to 680 of \<open>asset\<close>: the tag for the URL.\<close>

definition formatTag :: "manager \<Rightarrow> call_options \<Rightarrow> string \<Rightarrow> string completion \<times> manager" where
  "formatTag m opts url =
     (let extname = path_extname url in
      case map_of (tags (options m)) extname of
        None \<Rightarrow> fail_with m (''Unable to create an HTML tag for type '' @ quoted extname)
      | Some formatter \<Rightarrow>
          (Returned (formatter url (case opt_attributes opts of Some a \<Rightarrow> a | None \<Rightarrow> [])), m))"

text \<open>\<open>Manager.prototype.asset\<close>, called with options (\<open>noOptions\<close> when they are
  omitted).  Its recursion need not end (a pending entry may include its own identifier),
  so the first argument bounds the depth of the calls; \<open>None\<close> is a call that did not
  return within the bound.\<close>

fun asset :: "nat \<Rightarrow> manager \<Rightarrow> string \<Rightarrow> call_options \<Rightarrow> bool \<Rightarrow> (string completion \<times> manager) option" where
  "asset 0 m identifier opts force = None"
| "asset (Suc n) m identifier opts force =
     (if \<not> force \<and> inPending m identifier then
        asset n m identifier (mergeDefaults (Some (copy opts)) (existingOptions m identifier)) True
      else
        (case (if separateBundles (options m) then given (opt_include opts) else None) of
           Some inc \<Rightarrow>
             (case expandGlobs m inc of
                Inl err \<Rightarrow>
                  Some (fail_with m (err @ '' when building asset '' @ quoted identifier))
              | Inr included \<Rightarrow>
                  (case asset_map
                          (\<lambda>m' identifier'. asset n m' identifier' ((copy opts)\<lparr>opt_include := None\<rparr>) False)
                          included m of
                     None \<Rightarrow> None
                   | Some (Thrown e, m') \<Rightarrow> Some (Thrown e, m')
                   | Some (Returned tags', m') \<Rightarrow> Some (Returned (join_with [CHR 0x0A] tags'), m')))
         | None \<Rightarrow>
             (case assetUrl m identifier (Some opts) False of
                (Thrown e, m') \<Rightarrow> Some (Thrown e, m')
              | (Returned url, m') \<Rightarrow> Some (formatTag m' opts url))))"

section \<open>Construction and registration\<close>

text \<open>Lines 395 to 404 of the constructor: every compiler learns its source extension and
  is appended to the list of its output extension.  Under an output extension that is an
  inherited name no list is made, and \<^verbatim>\<open>push\<close> is called on the inherited value, which
  has none.  The compilers of the options are objects of their own, not one object under
  two extensions.\<close>

fun reverseIndex ::
    "(string \<times> compiler) list \<Rightarrow> (string \<rightharpoonup> compiler list) \<Rightarrow> (string \<rightharpoonup> compiler list) attempt" where
  "reverseIndex [] idx = Done idx"
| "reverseIndex ((ext, c) # rest) idx =
     (let c' = c\<lparr>c_extname := ext\<rparr> in
      case getProperty idx (c_output c') of
        None \<Rightarrow> reverseIndex rest (idx(c_output c' \<mapsto> [c']))
      | Some (Own l) \<Rightarrow> reverseIndex rest (idx(c_output c' \<mapsto> l @ [c']))
      | Some (Inherited k) \<Rightarrow> TypeError)"

text \<open>The constructor \<open>Manager\<close>, given the merged options and the collaborators.  It has
  no value when the pattern of compiled names is outside the fragment of regular
  expressions modelled above.\<close>

definition newManager ::
    "string \<Rightarrow> manager_options \<Rightarrow> (string \<Rightarrow> string \<Rightarrow> string) \<Rightarrow> (string \<Rightarrow> string \<Rightarrow> string)
      \<Rightarrow> (string \<Rightarrow> string \<Rightarrow> bool) \<Rightarrow> (string \<Rightarrow> string \<Rightarrow> string) \<Rightarrow> manager attempt option" where
  "newManager d opts hs hf mm fmt =
     (case rx_parse (compiledPatternSource (assetPrefix opts)) of
        None \<Rightarrow> None
      | Some pattern \<Rightarrow>
          Some
            (case reverseIndex (compilers opts) Map.empty of
               TypeError \<Rightarrow> TypeError
             | Done idx \<Rightarrow>
                 Done \<lparr> dir = d,
                        options = opts\<lparr>compilers :=
                                      map (\<lambda>(ext, c). (ext, c\<lparr>c_extname := ext\<rparr>)) (compilers opts)\<rparr>,
                        compiledPattern = pattern,
                        assets = [],
                        compiledAssets = Map.empty,
                        pendingAssets = Map.empty,
                        compilingNow = Map.empty,
                        reverseCompilerIndex = idx,
                        errorListeners = False,
                        events = [],
                        unlinked = [],
                        hashString = hs,
                        hashFile = hf,
                        minimatch = mm,
                        format = fmt \<rparr>))"

text \<open>
  \<^verbatim>\<open>obj[key] = value\<close> on an object whose keys are listed in enumeration order: first the
  keys that are array indices (the decimal numerals below \<open>2\<^sup>3\<^sup>2 - 1\<close>, without leading
  zeros) in ascending order, then the other keys in the order of their creation.  A key
  that is there keeps its place.
\<close>

fun digits_less :: "string \<Rightarrow> string \<Rightarrow> bool" where
  "digits_less (c # cs) (d # ds) = ((of_char c :: nat) < of_char d \<or> (c = d \<and> digits_less cs ds))"
| "digits_less cs ds = False"

definition numeral_less :: "string \<Rightarrow> string \<Rightarrow> bool" where
  "numeral_less a b = (length a < length b \<or> (length a = length b \<and> digits_less a b))"

definition isArrayIndex :: "string \<Rightarrow> bool" where
  "isArrayIndex k =
     (k \<noteq> [] \<and> list_all (\<lambda>c. c \<in> set ''0123456789'') k \<and> (k = ''0'' \<or> hd k \<noteq> CHR ''0'')
      \<and> numeral_less k ''4294967295'')"

fun assign :: "(string \<times> 'v) list \<Rightarrow> string \<Rightarrow> 'v \<Rightarrow> (string \<times> 'v) list" where
  "assign [] k v = [(k, v)]"
| "assign ((k', v') # rest) k v =
     (if k' = k then (k, v) # rest
      else if isArrayIndex k \<and> (\<not> isArrayIndex k' \<or> numeral_less k k') then (k, v) # (k', v') # rest
      else (k', v') # assign rest k v)"

text \<open>\<open>Manager.prototype.registerCompiler\<close>, on the extensions as \<^verbatim>\<open>utils.toExtname\<close>
  returned them (that function is not in the lib/utils.js at hand).  The assignment to
  \<^verbatim>\<open>this.options.compilers['__proto__']\<close> would add no key to the object but replace its
  prototype, by an object that has no property named like an extension.  Under an output
  extension that is an inherited name \<^verbatim>\<open>filter\<close> is called on the inherited value, which
  has none.\<close>

definition registerCompiler ::
    "manager \<Rightarrow> string \<Rightarrow> string \<Rightarrow> (string \<Rightarrow> string + string) \<Rightarrow> unit completion \<times> manager" where
  "registerCompiler m inputExt outputExt f =
     (let c = \<lparr> c_output = outputExt, c_compile = f, c_extname = inputExt \<rparr>;
          m1 = m\<lparr>options := (options m)\<lparr>compilers :=
                  (if inputExt = ''__proto__'' then compilers (options m)
                   else assign (compilers (options m)) inputExt c)\<rparr>\<rparr>
      in case getProperty (reverseCompilerIndex m1) outputExt of
           Some (Inherited k) \<Rightarrow> (Thrown ''TypeError'', m1)
         | Some (Own cs) \<Rightarrow>
             (Returned (),
              m1\<lparr>reverseCompilerIndex := (reverseCompilerIndex m1)(outputExt \<mapsto>
                    filter (\<lambda>c'. c_extname c' \<noteq> inputExt) cs @ [c])\<rparr>)
         | None \<Rightarrow>
             (Returned (), m1\<lparr>reverseCompilerIndex := (reverseCompilerIndex m1)(outputExt \<mapsto> [c])\<rparr>))"

section \<open>The hash cache\<close>

text \<open>What \<open>hashAssets\<close> finds at the manifest path: no readable file, a file that is
  not JSON, or a JSON value.\<close>

datatype manifest_file = Absent | Malformed | Parsed json

definition js_typeof :: "json \<Rightarrow> string" where
  "js_typeof j =
     (case j of
        JNull \<Rightarrow> ''object''
      | JBool b \<Rightarrow> ''boolean''
      | JNum n \<Rightarrow> ''number''
      | JStr s \<Rightarrow> ''string''
      | JArr xs \<Rightarrow> ''object''
      | JObj kvs \<Rightarrow> ''object'')"

text \<open>Lines 599 to 604: reading, parsing and the assertion are inside the
  \<^verbatim>\<open>try\<close>.\<close>

definition loadManifest :: "manifest_file \<Rightarrow> json" where
  "loadManifest f =
     (case f of
        Parsed j \<Rightarrow> if js_typeof j = ''object'' then j else JObj []
      | _ \<Rightarrow> JObj [])"

text \<open>\<^verbatim>\<open>key in value\<close> and \<^verbatim>\<open>value[key]\<close> on own properties; on \<^verbatim>\<open>null\<close> both throw a
  TypeError (\<open>None\<close>).  A property an object inherits has no \<^verbatim>\<open>mtime\<close>, so leaving
  those out does not change the branch \<open>hashAssets\<close> takes.\<close>

definition js_get :: "json \<Rightarrow> string \<Rightarrow> json option" where
  "js_get j key =
     (case j of
        JObj kvs \<Rightarrow> map_of (rev kvs) key
      | JArr xs \<Rightarrow>
          (if key = ''length'' then Some (JNum (decimal (length xs)))
           else map_option (\<lambda>i. xs ! i) (find (\<lambda>i. decimal i = key) [0..<length xs]))
      | _ \<Rightarrow> None)"

definition js_in :: "string \<Rightarrow> json \<Rightarrow> bool option" where
  "js_in key j =
     (case j of
        JNull \<Rightarrow> None
      | JObj kvs \<Rightarrow> Some (js_get j key \<noteq> None)
      | JArr xs \<Rightarrow> Some (js_get j key \<noteq> None)
      | _ \<Rightarrow> None)"

text \<open>\<^verbatim>\<open>entry.mtime\<close> and \<^verbatim>\<open>entry.hash\<close>: a TypeError on \<^verbatim>\<open>null\<close>, \<^verbatim>\<open>undefined\<close> on any
  other value that has no such property.\<close>

definition js_property :: "json \<Rightarrow> string \<Rightarrow> json option option" where
  "js_property j key = (if j = JNull then None else Some (js_get j key))"

text \<open>Lines 606 to 614: one round of the loop over the index.  The result is the file with
  its hash and whether it had to be hashed.\<close>

definition hashAsset :: "manager \<Rightarrow> json \<Rightarrow> string \<Rightarrow> asset_record \<Rightarrow> (asset_record \<times> bool) attempt" where
  "hashAsset m mf filename file =
     (let fresh = (file\<lparr>hash := Some (JStr (hashFile m (path_join [dir m, filename])
                                              (hashName (options m))))\<rparr>, True)
      in case js_in filename mf of
           None \<Rightarrow> TypeError
         | Some False \<Rightarrow> Done fresh
         | Some True \<Rightarrow>
             (case js_get mf filename of
                None \<Rightarrow> Done fresh
              | Some entry \<Rightarrow>
                  (case js_property entry ''mtime'' of
                     None \<Rightarrow> TypeError
                   | Some t \<Rightarrow>
                       if t = Some (JNum (js_number (mtime file)))
                       then Done (file\<lparr>hash := js_get entry ''hash''\<rparr>, False)
                       else Done fresh)))"

text \<open>The loop: the index with the hashes set so far, whether a file had to be hashed, and
  whether the loop ran to its end (a TypeError leaves it, with the files before it
  changed).\<close>

fun hashAssets_loop ::
    "manager \<Rightarrow> json \<Rightarrow> (string \<times> asset_record) list \<Rightarrow> (string \<times> asset_record) list \<Rightarrow> bool
      \<Rightarrow> (string \<times> asset_record) list \<times> bool \<times> bool" where
  "hashAssets_loop m mf [] hashed outdated = (hashed, outdated, True)"
| "hashAssets_loop m mf ((filename, file) # rest) hashed outdated =
     (case hashAsset m mf filename file of
        TypeError \<Rightarrow> (hashed @ (filename, file) # rest, outdated, False)
      | Done (file', fresh) \<Rightarrow>
          hashAssets_loop m mf rest (hashed @ [(filename, file')]) (outdated \<or> fresh))"

text \<open>The disk as \<open>hashAssets\<close> sees it: the manifest file, and the error of
  \<^verbatim>\<open>fs.writeFileSync\<close> on it, if it fails.\<close>

record disk =
  manifestOnDisk :: manifest_file
  writeError :: "string option"

text \<open>\<^verbatim>\<open>JSON.stringify(this.assets)\<close>, as \<^verbatim>\<open>JSON.parse\<close> reads it back.\<close>

definition manifestOf :: "(string \<times> asset_record) list \<Rightarrow> json" where
  "manifestOf idx =
     JObj (map (\<lambda>(k, a).
       (k, JObj ([(''name'', JStr (name a)), (''mtime'', JNum (js_number (mtime a)))]
                 @ (case hash a of None \<Rightarrow> [] | Some h \<Rightarrow> [(''hash'', h)])))) idx)"

text \<open>\<open>Manager.prototype.writeManifest\<close>.\<close>

definition writeManifest :: "manager \<Rightarrow> disk \<Rightarrow> (unit completion \<times> manager) \<times> disk" where
  "writeManifest m d =
     (case writeError d of
        None \<Rightarrow> ((Returned (), m), d\<lparr>manifestOnDisk := Parsed (manifestOf (assets m))\<rparr>)
      | Some err \<Rightarrow>
          (case fail_with m (''Failed to write the assets manifest: '' @ err) of
             (Returned u, m') \<Rightarrow> ((Returned (), m'), d)
           | (Thrown e, m') \<Rightarrow> ((Thrown e, m'), d)))"

text \<open>\<open>Manager.prototype.hashAssets\<close>: the value returned is \<open>outdated\<close>.\<close>

definition hashAssets :: "manager \<Rightarrow> disk \<Rightarrow> (bool completion \<times> manager) \<times> disk" where
  "hashAssets m d =
     (case hashAssets_loop m (loadManifest (manifestOnDisk d)) (assets m) [] False of
        (hashed, outdated, finished) \<Rightarrow>
          (let m1 = m\<lparr>assets := hashed\<rparr> in
           if \<not> finished then ((Thrown ''TypeError'', m1), d)
           else if outdated then
             (case writeManifest m1 d of
                ((Returned u, m2), d') \<Rightarrow> ((Returned outdated, m2), d')
              | ((Thrown e, m2), d') \<Rightarrow> ((Thrown e, m2), d'))
           else ((Returned outdated, m1), d)))"

section \<open>The compilation pipeline\<close>

text \<open>The file system as \<open>compileAsset\<close> sees it: what \<^verbatim>\<open>fs.readFile\<close> yields for a
  path (an error message or the contents), and the error of \<^verbatim>\<open>fs.writeFile\<close> on a
  path, if it fails.\<close>

record filesystem =
  readFile :: "string \<Rightarrow> string + string"
  writeFails :: "string \<Rightarrow> string option"

text \<open>What the pipeline did, in order.\<close>

datatype io = ReadFile string | RunCompiler string | RunCompressor string | WriteFile string string

text \<open>How the pipeline fails: with an error it hands to its callback, or with an exception
  that leaves it (or the callback of the file system it is in) before the callback is
  called.\<close>

datatype failure = Reported string | Uncaught string

text \<open>Lines 508 to 532: \<^verbatim>\<open>async.eachSeries\<close> over the constituent files; an error ends
  the series.  \<^verbatim>\<open>path.join\<close> throws a TypeError for a name that is \<^verbatim>\<open>undefined\<close>.\<close>

fun compileEach ::
    "manager \<Rightarrow> filesystem \<Rightarrow> asset_record property list \<Rightarrow> string list \<Rightarrow> io list
      \<Rightarrow> (failure + string list) \<times> io list" where
  "compileEach m fs [] contents log = (Inr contents, log)"
| "compileEach m fs (a # rest) contents log =
     (case entryName a of
        None \<Rightarrow> (Inl (Uncaught ''TypeError''), log)
      | Some assetName \<Rightarrow>
          (let assetPath = path_join [dir m, assetName];
               extname = path_extname assetName
           in case readFile fs assetPath of
                Inl err \<Rightarrow>
                  (Inl (Reported (''Failed to read file '' @ quoted assetName @ '': '' @ err)),
                   log @ [ReadFile assetPath])
              | Inr fileContents \<Rightarrow>
                  (case map_of (compilers (options m)) extname of
                     None \<Rightarrow> compileEach m fs rest (contents @ [fileContents]) (log @ [ReadFile assetPath])
                   | Some c \<Rightarrow>
                       (case c_compile c fileContents of
                          Inl err \<Rightarrow>
                            (Inl (Reported (''Failed to compile file '' @ quoted assetName @ '': '' @ err)),
                             log @ [ReadFile assetPath, RunCompiler assetName])
                        | Inr compiled \<Rightarrow>
                            compileEach m fs rest (contents @ [compiled])
                              (log @ [ReadFile assetPath, RunCompiler assetName])))))"

text \<open>\<^verbatim>\<open>fs.writeFile(outputPath, contents, callback)\<close>.\<close>

definition writeFile :: "filesystem \<Rightarrow> string \<Rightarrow> string \<Rightarrow> failure option \<times> filesystem" where
  "writeFile fs p contents =
     (case writeFails fs p of
        Some err \<Rightarrow> (Some (Reported err), fs)
      | None \<Rightarrow> (None, fs\<lparr>readFile := (readFile fs)(p := Inr contents)\<rparr>))"

text \<open>\<open>Manager.prototype.compileAsset\<close>: how it failed (\<open>None\<close> when the callback is
  called without an error), the file system afterwards, and what was done.\<close>

definition compileAsset ::
    "manager \<Rightarrow> filesystem \<Rightarrow> pending_asset \<Rightarrow> failure option \<times> filesystem \<times> io list" where
  "compileAsset m fs file =
     (case compileEach m fs (p_assets file) [] [] of
        (Inl err, log) \<Rightarrow> (Some err, fs, log)
      | (Inr parts, log) \<Rightarrow>
          (let contents = concat parts;
               outputPath = path_join [dir m, p_path file];
               extname = path_extname outputPath;
               contents' = (if extname = ''.js'' \<and> wrapJavascript (options m)
                            then format m (javascriptIIFE (options m)) contents else contents)
           in case (if compress (options m) then map_of (compressors (options m)) extname else None) of
                None \<Rightarrow>
                  (case writeFile fs outputPath contents' of
                     (err, fs') \<Rightarrow> (err, fs', log @ [WriteFile outputPath contents']))
              | Some compressor \<Rightarrow>
                  (case compressor contents' of
                     Inl err \<Rightarrow>
                       (Some (Reported (''Failed to compress asset '' @ quoted (p_path file) @ '': '' @ err)),
                        fs, log @ [RunCompressor outputPath])
                   | Inr compressed \<Rightarrow>
                       (case writeFile fs outputPath compressed of
                          (err, fs') \<Rightarrow>
                            (err, fs', log @ [RunCompressor outputPath, WriteFile outputPath compressed])))))"

section \<open>The request serializer\<close>

text \<open>
  The middleware of \<open>init\<close> runs in Node's single thread, one callback at a time.  A
  request is the number of its continuation \<^verbatim>\<open>next\<close>.  Beside the manager the server
  state holds what the closures hold: the compilations that \<open>compileAsset\<close> has been
  called for and that have not ended yet, each with the request whose \<^verbatim>\<open>next\<close> is its
  callback (the request marked with the name, in \<^verbatim>\<open>_canonicalAssetName\<close>); the log of the
  calls of \<open>compileAsset\<close>; and the log of the continuations called, each with its outcome.
  An exception that leaves a handler is handed by express to the error handlers, like an
  error given to \<^verbatim>\<open>next\<close>.
\<close>

datatype outcome = Proceed | Failed string

record server =
  mgr :: manager
  inflight :: "string \<rightharpoonup> nat"
  invoked :: "string list"
  delivered :: "(nat \<times> outcome) list"

text \<open>A request that no handler of the manager holds back goes on to the static
  middleware; one that fails goes on to the error handlers of the application.\<close>

definition pass :: "server \<Rightarrow> nat \<Rightarrow> server" where
  "pass s rid = s\<lparr>delivered := delivered s @ [(rid, Proceed)]\<rparr>"

definition reject :: "server \<Rightarrow> nat \<Rightarrow> string \<Rightarrow> server" where
  "reject s rid err = s\<lparr>delivered := delivered s @ [(rid, Failed err)]\<rparr>"

text \<open>Lines 447 to 463: the first request for a path starts the compilation, the others
  wait.  What \<^verbatim>\<open>self.pendingAssets[canonical]\<close> gives for a name in the dictionary is
  truthy.  For a name that \<^verbatim>\<open>compilingNow\<close> inherits, \<^verbatim>\<open>push\<close> is called on the inherited
  value, which has none: the TypeError fails the request, which is not marked.\<close>

definition compileMiddleware :: "server \<Rightarrow> nat \<Rightarrow> string \<Rightarrow> server" where
  "compileMiddleware s rid url =
     (if \<not> isCompiledAsset (mgr s) url then pass s rid
      else
        (let canonical = drop 1 (getCanonicalPath url) in
         if \<not> inPending (mgr s) canonical then pass s rid
         else if \<not> hasProperty (compilingNow (mgr s)) canonical then
           s\<lparr>mgr := (mgr s)\<lparr>compilingNow := (compilingNow (mgr s))(canonical \<mapsto> [])\<rparr>,
             inflight := (inflight s)(canonical \<mapsto> rid),
             invoked := invoked s @ [canonical]\<rparr>
         else
           (case compilingNow (mgr s) canonical of
              Some waiting \<Rightarrow>
                s\<lparr>mgr := (mgr s)\<lparr>compilingNow :=
                       (compilingNow (mgr s))(canonical \<mapsto> waiting @ [rid])\<rparr>\<rparr>
            | None \<Rightarrow> reject s rid ''TypeError'')))"

text \<open>Lines 469 to 492: the compilation of a name has ended, with an error or without,
  and the continuation of the marked request is called.  The handler that runs (the one
  with three arguments on success, the one with four on failure) first tests the mark,
  \<^verbatim>\<open>if (!request._canonicalAssetName)\<close>, and passes the request on when it is falsy, as the
  empty name is.  Else it deletes the entry, calls every waiting continuation and then the
  one of the request itself, all with the same argument.  Were the entry missing,
  \<^verbatim>\<open>forEach\<close> on \<^verbatim>\<open>undefined\<close> would throw.\<close>

definition resumeMiddleware :: "server \<Rightarrow> string \<Rightarrow> string option \<Rightarrow> server" where
  "resumeMiddleware s canonical err =
     (case inflight s canonical of
        None \<Rightarrow> s
      | Some rid \<Rightarrow>
          (let result = (case err of None \<Rightarrow> Proceed | Some e \<Rightarrow> Failed e);
               s1 = s\<lparr>inflight := (inflight s)(canonical := None)\<rparr>
           in if canonical = [] then s1\<lparr>delivered := delivered s1 @ [(rid, result)]\<rparr>
              else
                (case compilingNow (mgr s1) canonical of
                   None \<Rightarrow> reject s1 rid ''TypeError''
                 | Some pendingRequests \<Rightarrow>
                     s1\<lparr>mgr := (mgr s1)\<lparr>compilingNow := (compilingNow (mgr s1))(canonical := None)\<rparr>,
                        delivered := delivered s1 @ map (\<lambda>r. (r, result)) pendingRequests @ [(rid, result)]\<rparr>)))"

text \<open>What can happen to a running server: a request arrives, a running compilation
  ends, or a template resolves an identifier.\<close>

datatype server_event =
    Request nat string
  | Completed string "string option"
  | Resolve string call_options

fun step :: "server \<Rightarrow> server_event \<Rightarrow> server" where
  "step s (Request rid url) = compileMiddleware s rid url"
| "step s (Completed canonical err) = resumeMiddleware s canonical err"
| "step s (Resolve identifier opts) = s\<lparr>mgr := snd (assetPath (mgr s) identifier opts False)\<rparr>"

definition run :: "server \<Rightarrow> server_event list \<Rightarrow> server" where
  "run s evs = foldl step s evs"

text \<open>The server \<open>init\<close> sets up around a manager.\<close>

definition init :: "manager \<Rightarrow> server" where
  "init m = \<lparr> mgr = m, inflight = Map.empty, invoked = [], delivered = [] \<rparr>"

section \<open>The steps in the specification's words\<close>

text \<open>
  The definitions of this section are not translations of code: they word what the
  resolver and the pipeline are to do, for the properties below to compare the code with.
  The asset map of the specification is the map of the indexed files,
  \<open>map_of (assets m)\<close>.
\<close>

text \<open>The expansion of one entry as the specification words it: a glob stands for the
  indexed names it matches, any other entry for itself.\<close>

definition expandEntry :: "manager \<Rightarrow> string \<Rightarrow> string list" where
  "expandEntry m g =
     (if isGlob g then filter (\<lambda>k. minimatch m k g) (map fst (assets m)) else [g])"

text \<open>A glob that matches zero files.\<close>

definition unmatched :: "manager \<Rightarrow> string \<Rightarrow> bool" where
  "unmatched m g = (isGlob g \<and> filter (\<lambda>k. minimatch m k g) (map fst (assets m)) = [])"

text \<open>The entries of \<^verbatim>\<open>include\<close> or \<^verbatim>\<open>dependencies\<close>.\<close>

definition entries :: "globs \<Rightarrow> string list" where
  "entries gl = (case gl of GlobString g \<Rightarrow> [g] | GlobArray gs \<Rightarrow> gs)"

text \<open>A glob of the list matches zero files.\<close>

definition nothingMatched :: "manager \<Rightarrow> globs \<Rightarrow> bool" where
  "nothingMatched m gl = list_ex (unmatched m) (entries gl)"

text \<open>The deduplicated file list of an identifier: the expansion of the include list, or
  the identifier alone.\<close>

definition fileList :: "manager \<Rightarrow> string \<Rightarrow> call_options \<Rightarrow> string list" where
  "fileList m ident opts =
     stripDuplicates
       (case given (opt_include opts) of
          Some inc \<Rightarrow> concat (map (expandEntry m) (entries inc))
        | None \<Rightarrow> [ident])"

text \<open>The base name of a file name: its directory joined with its base name less the
  extension.\<close>

definition fallbackBase :: "string \<Rightarrow> string" where
  "fallbackBase filename =
     path_join [if CHR ''/'' \<in> set filename then path_dirname filename else [],
                path_basename_ext filename (path_extname filename)]"

text \<open>The names the fallback tries for a file name, in the order of the compilers registered
  for its extension: the base name with each compiler's source extension, the file name
  itself left out.\<close>

definition fallbackCandidates :: "manager \<Rightarrow> string \<Rightarrow> string list" where
  "fallbackCandidates m filename =
     filter (\<lambda>u. u \<noteq> filename)
       (map (\<lambda>c. fallbackBase filename @ c_extname c)
          (case reverseCompilerIndex m (path_extname filename) of None \<Rightarrow> [] | Some cs \<Rightarrow> cs))"

text \<open>The constituent file a file name stands for: the indexed file of that name in lower
  case, or else the first indexed file among the fallback names.\<close>

definition constituent :: "manager \<Rightarrow> string \<Rightarrow> asset_record option" where
  "constituent m f =
     (case map_of (assets m) (toLowerCase f) of
        Some a \<Rightarrow> Some a
      | None \<Rightarrow>
          (case List.map_filter (map_of (assets m)) (fallbackCandidates m (toLowerCase f)) of
             a # rest \<Rightarrow> Some a
           | [] \<Rightarrow> None))"

text \<open>A constituent file that is absent from the asset map after the compiler
  fallback.\<close>

definition unresolvable :: "manager \<Rightarrow> string \<Rightarrow> bool" where
  "unresolvable m f = (constituent m f = None)"

text \<open>The constituent files of an identifier with its options, in list order.\<close>

definition constituents :: "manager \<Rightarrow> string \<Rightarrow> call_options \<Rightarrow> asset_record list" where
  "constituents m ident opts = List.map_filter (constituent m) (fileList m ident opts)"

text \<open>The deduplicated names of the dependency list, and the dependency files.\<close>

definition dependencyNames :: "manager \<Rightarrow> call_options \<Rightarrow> string list" where
  "dependencyNames m opts =
     (case given (opt_dependencies opts) of
        None \<Rightarrow> []
      | Some deps \<Rightarrow> stripDuplicates (concat (map (expandEntry m) (entries deps))))"

definition dependencyFiles :: "manager \<Rightarrow> call_options \<Rightarrow> asset_record list" where
  "dependencyFiles m opts = List.map_filter (map_of (assets m)) (dependencyNames m opts)"

text \<open>The dependency list fails: a glob of it matches zero files, or a file of it is absent
  from the asset map.\<close>

definition dependencyFailure :: "manager \<Rightarrow> call_options \<Rightarrow> bool" where
  "dependencyFailure m opts =
     (case given (opt_dependencies opts) of
        None \<Rightarrow> False
      | Some deps \<Rightarrow>
          nothingMatched m deps \<or> list_ex (\<lambda>d. map_of (assets m) d = None) (dependencyNames m opts))"

text \<open>A resolution-time configuration failure of an identifier with its options.\<close>

definition configFailure :: "manager \<Rightarrow> string \<Rightarrow> call_options \<Rightarrow> bool" where
  "configFailure m ident opts =
     ((case given (opt_include opts) of Some inc \<Rightarrow> nothingMatched m inc | None \<Rightarrow> False)
      \<or> fileList m ident opts = []
      \<or> list_ex (unresolvable m) (fileList m ident opts)
      \<or> dependencyFailure m opts)"

text \<open>The text of a content hash in the string that is hashed: the hash as a string, the
  empty string for a file without one.\<close>

definition hashText :: "asset_record \<Rightarrow> string" where
  "hashText a = join_element (hash a)"

text \<open>The fingerprint of an identifier with its options: the configured hash function on
  the hash texts of the constituent files followed by the dependency files, joined by the
  separator, cut to the configured length.\<close>

definition fingerprintOf :: "string \<Rightarrow> manager \<Rightarrow> string \<Rightarrow> call_options \<Rightarrow> string" where
  "fingerprintOf separator m ident opts =
     slice0 (hashLength (options m))
       (hashString m
          (join_with separator (map hashText (constituents m ident opts @ dependencyFiles m opts)))
          (hashName (options m)))"

text \<open>The output path of an identifier for a fingerprint: under the serve prefix and the
  directory of the identifier, the asset prefix, the fingerprint and the base name of the
  identifier, joined by hyphens.\<close>

definition outputPath :: "manager \<Rightarrow> string \<Rightarrow> string \<Rightarrow> string" where
  "outputPath m ident fp =
     path_join [servePrefix (options m),
       path_join [if CHR ''/'' \<in> set ident then path_dirname ident else [],
                  assetPrefix (options m) @ ''-'' @ fp @ ''-'' @ path_basename ident]]"

text \<open>No name that the resolution of an identifier with its options looks up is a name
  that objects inherit: not the identifier, nor a file name of the list in lower case, nor
  a fallback name of it, nor a dependency name.\<close>

definition ordinary :: "manager \<Rightarrow> string \<Rightarrow> call_options \<Rightarrow> bool" where
  "ordinary m ident opts =
     (\<not> inherited ident
      \<and> list_all (\<lambda>f. \<not> inherited (toLowerCase f)
                       \<and> list_all (\<lambda>u. \<not> inherited u) (fallbackCandidates m (toLowerCase f)))
          (fileList m ident opts)
      \<and> list_all (\<lambda>d. \<not> inherited d) (dependencyNames m opts))"

text \<open>The identifier and the options a call of \<open>assetPath\<close> resolves: those of the
  call, or for an identifier that is pending and not forced, what the call hands to
  itself.\<close>

definition effectiveCall :: "manager \<Rightarrow> string \<Rightarrow> call_options \<Rightarrow> bool \<Rightarrow> string \<times> call_options" where
  "effectiveCall m ident0 opts force =
     (if \<not> force \<and> inPending m (remapIdentifier m ident0) then
        (remapIdentifier m (remapIdentifier m ident0),
         mergeDefaults (Some (copy opts)) (existingOptions m (remapIdentifier m ident0)))
      else (remapIdentifier m ident0, opts))"






text \<open>The failure of one constituent, in the specification's words: the file cannot be
  read, or its compiler fails; the message names the file and the stage.  A constituent
  without a name is no file, and ends the pipeline with a TypeError.\<close>

definition fileFailure :: "manager \<Rightarrow> filesystem \<Rightarrow> asset_record property \<Rightarrow> failure option" where
  "fileFailure m fs a =
     (case entryName a of
        None \<Rightarrow> Some (Uncaught ''TypeError'')
      | Some n \<Rightarrow>
          (case readFile fs (path_join [dir m, n]) of
             Inl err \<Rightarrow> Some (Reported (''Failed to read file '' @ quoted n @ '': '' @ err))
           | Inr fileContents \<Rightarrow>
               (case map_of (compilers (options m)) (path_extname n) of
                  None \<Rightarrow> None
                | Some c \<Rightarrow>
                    (case c_compile c fileContents of
                       Inl err \<Rightarrow> Some (Reported (''Failed to compile file '' @ quoted n @ '': '' @ err))
                     | Inr compiled \<Rightarrow> None))))"

text \<open>What a constituent file contributes to the output when it does not fail.\<close>

definition fileOutput :: "manager \<Rightarrow> filesystem \<Rightarrow> asset_record property \<Rightarrow> string" where
  "fileOutput m fs a =
     (case entryName a of
        None \<Rightarrow> []
      | Some n \<Rightarrow>
          (case readFile fs (path_join [dir m, n]) of
             Inl err \<Rightarrow> []
           | Inr fileContents \<Rightarrow>
               (case map_of (compilers (options m)) (path_extname n) of
                  None \<Rightarrow> fileContents
                | Some c \<Rightarrow> (case c_compile c fileContents of Inl err \<Rightarrow> [] | Inr compiled \<Rightarrow> compiled))))"

text \<open>What the pipeline does for one constituent file.\<close>

definition fileOps :: "manager \<Rightarrow> filesystem \<Rightarrow> asset_record property \<Rightarrow> io list" where
  "fileOps m fs a =
     (case entryName a of
        None \<Rightarrow> []
      | Some n \<Rightarrow>
          ReadFile (path_join [dir m, n]) #
          (case readFile fs (path_join [dir m, n]) of
             Inl err \<Rightarrow> []
           | Inr fileContents \<Rightarrow>
               (case map_of (compilers (options m)) (path_extname n) of
                  None \<Rightarrow> []
                | Some c \<Rightarrow> [RunCompiler n])))"

text \<open>The concatenation of the contributions, wrapped when the output is a script and the
  option is set.\<close>

definition assembled :: "manager \<Rightarrow> filesystem \<Rightarrow> pending_asset \<Rightarrow> string" where
  "assembled m fs file =
     (let contents = concat (map (fileOutput m fs) (p_assets file)) in
      if path_extname (path_join [dir m, p_path file]) = ''.js'' \<and> wrapJavascript (options m)
      then format m (javascriptIIFE (options m)) contents else contents)"

text \<open>The failure of the compression stage.\<close>

definition compressFailure :: "manager \<Rightarrow> filesystem \<Rightarrow> pending_asset \<Rightarrow> failure option" where
  "compressFailure m fs file =
     (if compress (options m) then
        (case map_of (compressors (options m)) (path_extname (path_join [dir m, p_path file])) of
           None \<Rightarrow> None
         | Some compressor \<Rightarrow>
             (case compressor (assembled m fs file) of
                Inl err \<Rightarrow>
                  Some (Reported (''Failed to compress asset '' @ quoted (p_path file) @ '': '' @ err))
              | Inr compressed \<Rightarrow> None))
      else None)"

text \<open>The first stage that fails: the files in list order, then the compression.\<close>

definition firstFailure :: "manager \<Rightarrow> filesystem \<Rightarrow> pending_asset \<Rightarrow> failure option" where
  "firstFailure m fs file =
     (case find (\<lambda>a. fileFailure m fs a \<noteq> None) (p_assets file) of
        Some a \<Rightarrow> fileFailure m fs a
      | None \<Rightarrow> compressFailure m fs file)"

text \<open>A write to the file system.\<close>

definition is_write :: "io \<Rightarrow> bool" where
  "is_write x = (case x of WriteFile p c \<Rightarrow> True | _ \<Rightarrow> False)"

text \<open>The outcome a continuation is called with: \<^verbatim>\<open>next()\<close> or \<^verbatim>\<open>next(err)\<close>.\<close>

definition outcome_of :: "string option \<Rightarrow> outcome" where
  "outcome_of err = (case err of None \<Rightarrow> Proceed | Some e \<Rightarrow> Failed e)"

section \<open>Managers, files and calls to compute with\<close>

text \<open>Stand-ins for the collaborators: a checksum (the sum of the character codes modulo
  256, as two hexadecimal digits) for the hash functions, a matcher that knows the
  patterns \<^verbatim>\<open>*suffix\<close> for \<^verbatim>\<open>minimatch\<close>, and a formatter that puts its argument in the
  place of the first \<^verbatim>\<open>%s\<close> of the template for \<^verbatim>\<open>util.format\<close>.\<close>

definition checksum :: "string \<Rightarrow> string \<Rightarrow> string" where
  "checksum str algorithm =
     (let n = sum_list (map of_char str) mod (256 :: nat) in
      [''0123456789abcdef'' ! (n div 16), ''0123456789abcdef'' ! (n mod 16)])"

definition suffixMatch :: "string \<Rightarrow> string \<Rightarrow> bool" where
  "suffixMatch filename pattern =
     (case pattern of
        c # suffix \<Rightarrow> if c = CHR ''*'' then ends_with filename suffix else filename = pattern
      | [] \<Rightarrow> filename = [])"

fun substitute :: "string \<Rightarrow> string \<Rightarrow> string" where
  "substitute [] arg = []"
| "substitute [c] arg = [c]"
| "substitute (c # d # cs) arg =
     (if c = CHR ''%'' \<and> d = CHR ''s'' then arg @ cs else c # substitute (d # cs) arg)"

definition scriptTag :: "string \<Rightarrow> (string \<times> string) list \<Rightarrow> string" where
  "scriptTag url attributes = ''<script src='' @ quoted url @ ''></script>''"

definition linkTag :: "string \<Rightarrow> (string \<times> string) list \<Rightarrow> string" where
  "linkTag url attributes = ''<link href='' @ quoted url @ '' />''"

definition lessCompiler :: compiler where
  "lessCompiler = \<lparr> c_output = ''.css'', c_compile = (\<lambda>src. Inr src), c_extname = ''.less'' \<rparr>"

definition demoOptions :: manager_options where
  "demoOptions =
     \<lparr> assetPrefix = ''asset'', hashName = ''md5'', hashLength = 32,
       manifest = ''.asset-manifest'', servePrefix = ''/'', urlPrefix = [],
       tags = [(''.js'', scriptTag), (''.css'', linkTag)],
       compilers = [(''.less'', lessCompiler)],
       compressors = [],
       compress = False, wrapJavascript = False,
       javascriptIIFE = ''!function(){%s}();'', separateBundles = False \<rparr>"

definition demoAssets :: "(string \<times> asset_record) list" where
  "demoAssets =
     [(''jquery.js'', \<lparr> name = ''jquery.js'', mtime = 1, hash = Some (JStr ''82'') \<rparr>),
      (''html5shiv.js'', \<lparr> name = ''html5shiv.js'', mtime = 2, hash = Some (JStr ''b0'') \<rparr>),
      (''foo.less'', \<lparr> name = ''foo.less'', mtime = 3, hash = Some (JStr ''a2'') \<rparr>),
      (''robots.txt'', \<lparr> name = ''robots.txt'', mtime = 4, hash = Some (JStr ''74'') \<rparr>)]"

definition demo :: manager where
  "demo =
     \<lparr> dir = ''/srv/static'',
       options = demoOptions,
       compiledPattern = [Bol, Lit CHR ''a'', Lit CHR ''s'', Lit CHR ''s'', Lit CHR ''e'',
                          Lit CHR ''t'', Lit CHR ''-'', HexPlusLazy, Lit CHR ''-''],
       assets = demoAssets,
       compiledAssets = Map.empty,
       pendingAssets = Map.empty,
       compilingNow = Map.empty,
       reverseCompilerIndex = [''.css'' \<mapsto> [lessCompiler]],
       errorListeners = True,
       events = [],
       unlinked = [],
       hashString = checksum,
       hashFile = checksum,
       minimatch = suffixMatch,
       format = substitute \<rparr>"

text \<open>The manager above with another \<^verbatim>\<open>assetPrefix\<close>, its pattern compiled as the
  constructor does.\<close>

definition withPrefix :: "string \<Rightarrow> manager" where
  "withPrefix p =
     demo\<lparr>options := demoOptions\<lparr>assetPrefix := p\<rparr>,
          compiledPattern := (case rx_parse (compiledPatternSource p) of Some r \<Rightarrow> r | None \<Rightarrow> [])\<rparr>"

text \<open>A file system where only \<^verbatim>\<open>jquery.js\<close> can be read.\<close>

definition demoFs :: filesystem where
  "demoFs =
     \<lparr> readFile = (\<lambda>p. if p = ''/srv/static/jquery.js'' then Inr ''window.jQuery = {};''
                        else Inl ''ENOENT''),
       writeFails = (\<lambda>p. None) \<rparr>"

text \<open>A pending bundle of three files.\<close>

definition demoBundle :: pending_asset where
  "demoBundle =
     \<lparr> p_path = ''/asset-db-all.js'',
       p_assets = [Own \<lparr> name = ''jquery.js'', mtime = 1, hash = Some (JStr ''82'') \<rparr>,
                   Own \<lparr> name = ''html5shiv.js'', mtime = 2, hash = Some (JStr ''b0'') \<rparr>,
                   Own \<lparr> name = ''foo.less'', mtime = 3, hash = Some (JStr ''a2'') \<rparr>],
       p_dependencies = [],
       p_options = \<lparr> opt_include = Some (GlobString ''*''), opt_dependencies = None,
                      opt_prefix = None, opt_attributes = None \<rparr> \<rparr>"

text \<open>A pending asset of one file.\<close>

definition demoSingle :: pending_asset where
  "demoSingle =
     \<lparr> p_path = ''/asset-6a-jquery.js'',
       p_assets = [Own \<lparr> name = ''jquery.js'', mtime = 1, hash = Some (JStr ''82'') \<rparr>],
       p_dependencies = [],
       p_options = \<lparr> opt_include = None, opt_dependencies = None,
                      opt_prefix = None, opt_attributes = None \<rparr> \<rparr>"

text \<open>The manager with compression on and a compressor for scripts that fails.\<close>

definition demoCompressing :: manager where
  "demoCompressing =
     demo\<lparr>options := demoOptions\<lparr>compress := True,
                                   compressors := [(''.js'', \<lambda>contents. Inl ''Unexpected token'')]\<rparr>\<rparr>"

text \<open>A manifest file that holds the JSON value \<^verbatim>\<open>null\<close>.\<close>

definition nullManifest :: disk where
  "nullManifest = \<lparr> manifestOnDisk = Parsed JNull, writeError = None \<rparr>"

text \<open>The manifest the manager would write for its index, but with another modification
  time for \<^verbatim>\<open>jquery.js\<close>.\<close>

definition staleManifest :: disk where
  "staleManifest =
     \<lparr> manifestOnDisk = Parsed (manifestOf
         ((''jquery.js'', \<lparr> name = ''jquery.js'', mtime = 0, hash = Some (JStr ''00'') \<rparr>) # tl demoAssets)),
       writeError = None \<rparr>"

text \<open>A manifest file that holds \<^verbatim>\<open>{"jquery.js": null}\<close>.\<close>

definition nullEntryManifest :: disk where
  "nullEntryManifest = \<lparr> manifestOnDisk = Parsed (JObj [(''jquery.js'', JNull)]), writeError = None \<rparr>"

text \<open>The options of a bundle of two scripts.\<close>

definition jsBundleOptions :: call_options where
  "jsBundleOptions =
     \<lparr> opt_include = Some (GlobArray [''jquery.js'', ''html5shiv.js'']), opt_dependencies = None,
       opt_prefix = None, opt_attributes = None \<rparr>"

text \<open>The manager with the URL prefix of a content delivery network, and a call that
  names another prefix.\<close>

definition cdnManager :: manager where
  "cdnManager = demo\<lparr>options := demoOptions\<lparr>urlPrefix := ''http://cdn.foo.com/''\<rparr>\<rparr>"

definition elsewhereOptions :: call_options where
  "elsewhereOptions =
     \<lparr> opt_include = None, opt_dependencies = None,
       opt_prefix = Some ''http://elsewhere.com'', opt_attributes = None \<rparr>"

text \<open>The manager after \<^verbatim>\<open>registerCompiler('.css', '.out', ...)\<close>: the output extension
  of the compiler for \<^verbatim>\<open>.less\<close> is now the source extension of a compiler itself.\<close>

definition chainManager :: manager where
  "chainManager = snd (registerCompiler demo ''.css'' ''.out'' (\<lambda>src. Inr src))"





text \<open>A bundle of two scripts and a style sheet as a dependency.\<close>

definition dependentOptions :: call_options where
  "dependentOptions =
     \<lparr> opt_include = Some (GlobArray [''jquery.js'', ''html5shiv.js'']),
       opt_dependencies = Some (GlobString ''foo.less''),
       opt_prefix = None, opt_attributes = None \<rparr>"

text \<open>A template defines the bundle of two scripts under the empty name; two requests for
  its compiled name arrive, and the compilation fails.\<close>

definition emptyNameTrace :: "server_event list" where
  "emptyNameTrace =
     [Resolve [] jsBundleOptions,
      Request 1 ''/asset-36-'',
      Request 2 ''/asset-36-'',
      Completed [] (Some ''ENOENT'')]"

text \<open>The same under the name \<^verbatim>\<open>all.js\<close>.\<close>

definition bundleTrace :: "server_event list" where
  "bundleTrace =
     [Resolve ''all.js'' jsBundleOptions,
      Request 1 ''/asset-36-all.js'',
      Request 2 ''/asset-36-all.js'',
      Completed ''all.js'' (Some ''ENOENT'')]"

text \<open>Bundles of a name that no file has: one that objects inherit, alone and beside a
  file, and one that they do not.\<close>

definition constructorOptions :: call_options where
  "constructorOptions =
     \<lparr> opt_include = Some (GlobArray [''constructor'']), opt_dependencies = None,
       opt_prefix = None, opt_attributes = None \<rparr>"

definition objectBundleOptions :: call_options where
  "objectBundleOptions =
     \<lparr> opt_include = Some (GlobArray [''constructor'', ''jquery.js'']), opt_dependencies = None,
       opt_prefix = None, opt_attributes = None \<rparr>"

definition missingOptions :: call_options where
  "missingOptions =
     \<lparr> opt_include = Some (GlobArray [''missing.css'']), opt_dependencies = None,
       opt_prefix = None, opt_attributes = None \<rparr>"

section \<open>Lemmas on strings, paths and the pattern\<close>

lemma split_on_nonempty [simp]: "split_on d s \<noteq> []"
  by (induction s) (auto split: list.splits)

lemma split_on_no_sep: "d \<notin> set s \<Longrightarrow> split_on d s = [s]"
  by (induction s) auto

lemma split_on_append_sep: "split_on d (xs @ d # ys) = split_on d xs @ split_on d ys"
  by (induction xs) (auto split: list.splits)

lemma join_with_append:
  "as \<noteq> [] \<Longrightarrow> bs \<noteq> [] \<Longrightarrow> join_with sep (as @ bs) = join_with sep as @ sep @ join_with sep bs"
  by (induction sep as rule: join_with.induct) (auto simp: neq_Nil_conv)

lemma join_split: "join_with [d] (split_on d s) = s"
proof (induction s)
  case Nil
  then show ?case by simp
next
  case (Cons c cs)
  show ?case
  proof (cases "c = d")
    case True
    with Cons show ?thesis by (cases "split_on d cs") auto
  next
    case False
    with Cons show ?thesis
      by (cases "split_on d cs"; cases "tl (split_on d cs)") auto
  qed
qed

lemma path_basename_no_slash: "CHR ''/'' \<notin> set p \<Longrightarrow> path_basename p = p"
proof -
  assume a: "CHR ''/'' \<notin> set p"
  have d: "dropWhile (\<lambda>c. c = CHR ''/'') (rev p) = rev p"
    using a by (cases "rev p") (auto simp: rev_eq_Cons_iff)
  have t: "takeWhile (\<lambda>c. c \<noteq> CHR ''/'') (rev p) = rev p"
    using a by (auto simp: takeWhile_eq_all_conv)
  show ?thesis unfolding path_basename_def by (simp only: d t rev_rev_ident)
qed

lemma path_dirname_no_slash: "CHR ''/'' \<notin> set p \<Longrightarrow> path_dirname p = ''.''"
proof -
  assume a: "CHR ''/'' \<notin> set p"
  show ?thesis
  proof (cases p)
    case Nil
    then show ?thesis by (simp add: path_dirname_def)
  next
    case (Cons c cs)
    with a have n: "CHR ''/'' \<notin> set (rev cs)" and h: "hd p \<noteq> CHR ''/''" by auto
    have d: "dropWhile (\<lambda>c. c = CHR ''/'') (rev (tl p)) = rev cs"
      using n Cons by (cases "rev cs") auto
    have e: "dropWhile (\<lambda>c. c \<noteq> CHR ''/'') (rev cs) = []"
      using n by (auto simp: dropWhile_eq_Nil_conv)
    show ?thesis unfolding path_dirname_def Let_def d e using h Cons by simp
  qed
qed

lemma path_join_dot: "f \<noteq> [] \<Longrightarrow> CHR ''/'' \<notin> set f \<Longrightarrow> path_join [''.'', f] = f"
proof -
  assume a: "f \<noteq> []" and b: "CHR ''/'' \<notin> set f"
  have s: "split_on (CHR ''/'') (''./'' @ f) = [''.'', f]"
    using split_on_append_sep [of "CHR ''/''" "''.''" f] split_on_no_sep [OF b] by simp
  have l: "last (''./'' @ f) \<noteq> CHR ''/''" using a b by (metis last_appendR last_in_set)
  have n: "join_with ''/'' (normalizeArray True [] [''.'', f]) = (if f = ''.'' then [] else f)"
    by simp
  have "path_normalize (''./'' @ f) = f"
    unfolding path_normalize_def Let_def
    using a l by (simp only: s) (simp add: n del: normalizeArray.simps)
  then show ?thesis using a by (simp add: path_join_def)
qed

lemma is_hex_no_sep: "is_hex c \<Longrightarrow> c \<noteq> CHR ''-'' \<and> c \<noteq> CHR ''/''"
  by (auto simp: is_hex_def)

lemma split_on_sep_length: "d \<in> set s \<Longrightarrow> 2 \<le> length (split_on d s)"
  by (induction s) (auto split: list.splits simp: Suc_le_eq)

lemma split_on_chars: "w \<in> set (split_on d s) \<Longrightarrow> set w \<subseteq> set s"
  by (induction s arbitrary: w) (fastforce split: if_splits list.splits)+

lemma join_with_chars: "set (join_with sep ws) \<subseteq> set sep \<union> (\<Union>w\<in>set ws. set w)"
  by (induction sep ws rule: join_with.induct) auto

lemma canonical_of_compiled_name:
  assumes "CHR ''/'' \<notin> set p" and "CHR ''-'' \<notin> set p"
    and "\<forall>c\<in>set h. is_hex c" and "f \<noteq> []" and "CHR ''/'' \<notin> set f"
  shows "getCanonicalPath (p @ ''-'' @ h @ ''-'' @ f) = f"
proof -
  let ?file = "p @ ''-'' @ h @ ''-'' @ f"
  from assms(3) have h: "CHR ''-'' \<notin> set h" "CHR ''/'' \<notin> set h"
    using is_hex_no_sep by blast+
  have ns: "CHR ''/'' \<notin> set ?file" using assms h by simp
  have sp: "split_on (CHR ''-'') ?file = p # h # split_on (CHR ''-'') f"
    using split_on_append_sep [of "CHR ''-''" p "h @ ''-'' @ f"]
          split_on_append_sep [of "CHR ''-''" h f]
          split_on_no_sep [OF assms(2)] split_on_no_sep [OF h(1)]
    by simp
  show ?thesis
    unfolding getCanonicalPath_def Let_def path_basename_no_slash [OF ns] path_dirname_no_slash [OF ns] sp
    using path_join_dot [OF assms(4,5)] by (simp add: join_split)
qed

lemma canonical_of_dashed_prefix:
  assumes "CHR ''/'' \<notin> set p" and "CHR ''-'' \<in> set p"
    and "\<forall>c\<in>set h. is_hex c" and "CHR ''/'' \<notin> set f"
  shows "getCanonicalPath (p @ ''-'' @ h @ ''-'' @ f) \<noteq> f"
proof -
  let ?file = "p @ ''-'' @ h @ ''-'' @ f"
  let ?X = "drop 2 (split_on (CHR ''-'') p)"
  from assms(3) have h: "CHR ''-'' \<notin> set h" "CHR ''/'' \<notin> set h"
    using is_hex_no_sep by blast+
  have ns: "CHR ''/'' \<notin> set ?file" using assms h by simp
  have sp: "split_on (CHR ''-'') ?file = split_on (CHR ''-'') p @ h # split_on (CHR ''-'') f"
    using split_on_append_sep [of "CHR ''-''" p "h @ ''-'' @ f"]
          split_on_append_sep [of "CHR ''-''" h f]
          split_on_no_sep [OF h(1)]
    by simp
  have dr: "drop 2 (split_on (CHR ''-'') ?file) = ?X @ h # split_on (CHR ''-'') f"
    using split_on_sep_length [OF assms(2)] sp by simp
  have jn: "join_with ''-'' (h # split_on (CHR ''-'') f) = h @ ''-'' @ f"
    using join_with_append [of "[h]" "split_on (CHR ''-'') f" "''-''"] by (simp add: join_split)
  obtain y where canon: "join_with ''-'' (drop 2 (split_on (CHR ''-'') ?file)) = y @ h @ ''-'' @ f"
    and yc: "set y \<subseteq> insert (CHR ''-'') (set p)"
  proof (cases "?X = []")
    case True
    show ?thesis using dr True jn by (intro that [of "[]"]) simp_all
  next
    case False
    have "set (join_with ''-'' ?X) \<subseteq> insert (CHR ''-'') (set p)"
      using join_with_chars [of "''-''" ?X] split_on_chars [of _ "CHR ''-''" p]
      by (auto dest: in_set_dropD)
    then show ?thesis
      using join_with_append [OF False, of "h # split_on (CHR ''-'') f" "''-''"] dr jn
      by (intro that [of "join_with ''-'' ?X @ ''-''"]) auto
  qed
  have c1: "y @ h @ ''-'' @ f \<noteq> []" by simp
  have c2: "CHR ''/'' \<notin> set (y @ h @ ''-'' @ f)" using yc assms h by auto
  have "getCanonicalPath ?file = y @ h @ ''-'' @ f"
    unfolding getCanonicalPath_def Let_def path_basename_no_slash [OF ns] path_dirname_no_slash [OF ns] canon
    using path_join_dot [OF c1 c2] by simp
  then have "length (getCanonicalPath ?file) = length y + length h + 1 + length f" by simp
  then show ?thesis by auto
qed

lemma rx_parse_escaped:
  assumes "\<forall>c\<in>set p. c \<noteq> CHR ''^'' \<and> c \<noteq> CHR ''$'' \<and> c \<noteq> CHR 0x5C"
    and "rx_parse rest = Some r"
  shows "rx_parse (escapeRegex p @ rest) = Some (map Lit p @ r)"
  using assms
proof (induction p)
  case Nil
  then show ?case by (simp add: escapeRegex_def)
next
  case (Cons c p)
  then have ih: "rx_parse (escapeRegex p @ rest) = Some (map Lit p @ r)" by simp
  from Cons.prems have c: "c \<noteq> CHR ''^''" "c \<noteq> CHR ''$''" "c \<noteq> CHR 0x5C" by simp_all
  have e: "escapeRegex (c # p) = (if c \<in> set ''.*+?|()[]{}'' then [CHR 0x5C, c] else [c]) @ escapeRegex p"
    by (simp add: escapeRegex_def)
  show ?case
  proof (cases "c \<in> set ''.*+?|()[]{}''")
    case True
    then have "c \<in> set ''^$.*+?|()[]{}/-''" by auto
    with True ih show ?thesis unfolding e by (simp del: set_simps)
  next
    case False
    with c ih show ?thesis unfolding e by auto
  qed
qed

lemma rx_parse_tail: "rx_parse ''-[0-9a-f]+?-'' = Some [Lit CHR ''-'', HexPlusLazy, Lit CHR ''-'']"
  by simp

lemma compiledPattern_literal:
  assumes "\<forall>c\<in>set p. c \<noteq> CHR ''^'' \<and> c \<noteq> CHR ''$'' \<and> c \<noteq> CHR 0x5C"
  shows "rx_parse (compiledPatternSource p) = Some (Bol # map Lit p @ [Lit CHR ''-'', HexPlusLazy, Lit CHR ''-''])"
proof -
  have "rx_parse (escapeRegex p @ ''-[0-9a-f]+?-'') = Some (map Lit p @ [Lit CHR ''-'', HexPlusLazy, Lit CHR ''-''])"
    by (rule rx_parse_escaped [OF assms rx_parse_tail])
  then show ?thesis by (simp add: compiledPatternSource_def)
qed

lemma rx_match_literals:
  "rx_match (map Lit xs @ Lit c # as) inRun atStart (xs @ c # s) = rx_match as False False s"
  by (induction xs arbitrary: inRun atStart) auto

lemma rx_match_hex_run:
  "\<forall>c\<in>set h. is_hex c \<Longrightarrow> rx_match as False False s \<Longrightarrow> rx_match (HexPlusLazy # as) True False (h @ s)"
  by (induction h) auto

lemma rx_search_here: "rx_match as False atStart s \<Longrightarrow> rx_search as atStart s"
  by (cases s) auto

lemma compiled_name_matches:
  assumes "h \<noteq> []" and "\<forall>c\<in>set h. is_hex c"
  shows "rx_test (Bol # map Lit p @ [Lit CHR ''-'', HexPlusLazy, Lit CHR ''-'']) (p @ ''-'' @ h @ ''-'' @ f)"
proof -
  obtain c cs where h: "h = c # cs" using assms(1) by (cases h) auto
  have "rx_match [Lit CHR ''-''] False False (''-'' @ f)" by simp
  then have "rx_match (HexPlusLazy # [Lit CHR ''-'']) True False (cs @ ''-'' @ f)"
    using assms(2) h by (intro rx_match_hex_run) auto
  then have "rx_match (HexPlusLazy # [Lit CHR ''-'']) False False (h @ ''-'' @ f)"
    using assms(2) h by simp
  then have "rx_match (map Lit p @ Lit CHR ''-'' # [HexPlusLazy, Lit CHR ''-'']) False True (p @ CHR ''-'' # h @ ''-'' @ f)"
    by (simp only: rx_match_literals)
  then have "rx_match (Bol # map Lit p @ [Lit CHR ''-'', HexPlusLazy, Lit CHR ''-'']) False True (p @ ''-'' @ h @ ''-'' @ f)"
    by simp
  then show ?thesis unfolding rx_test_def by (rule rx_search_here)
qed

section \<open>Lemmas on the resolver\<close>



lemma getProperty_ordinary: "\<not> inherited k \<Longrightarrow> getProperty obj k = map_option Own (obj k)"
  by (simp add: getProperty_def split: option.splits)

lemma hasProperty_ordinary: "\<not> inherited k \<Longrightarrow> hasProperty obj k = (obj k \<noteq> None)"
  by (simp add: hasProperty_def)

lemma assetAt_ordinary: "\<not> inherited k \<Longrightarrow> assetAt m k = map_option Own (map_of (assets m) k)"
  by (simp add: assetAt_def getProperty_ordinary)

lemma mergeDefaults_undefined: "mergeDefaults (Some opts) None = opts"
  by (simp add: mergeDefaults_def orEmpty_def noOptions_def merge_option_def merge_attributes_def
           split: option.splits)

lemma findUncompiled_eq:
  assumes "list_all (\<lambda>u. \<not> inherited u) (filter (\<lambda>u. u \<noteq> filename) (map (\<lambda>c. base @ c_extname c) cs))"
  shows "findUncompiled m filename base cs tried =
     (case List.map_filter (map_of (assets m)) (filter (\<lambda>u. u \<noteq> filename) (map (\<lambda>c. base @ c_extname c) cs)) of
        a # rest \<Rightarrow>
          (Some (Own a), tried @ takeWhile (\<lambda>u. map_of (assets m) u = None)
                             (filter (\<lambda>u. u \<noteq> filename) (map (\<lambda>c. base @ c_extname c) cs)))
      | [] \<Rightarrow> (None, tried @ filter (\<lambda>u. u \<noteq> filename) (map (\<lambda>c. base @ c_extname c) cs)))"
  using assms
proof (induction cs arbitrary: tried)
  case Nil
  then show ?case by (simp add: List.map_filter_simps)
next
  case (Cons c cs)
  show ?case
  proof (cases "base @ c_extname c = filename")
    case True
    with Cons show ?thesis by (auto split: list.splits)
  next
    case False
    with Cons.prems have ni: "\<not> inherited (base @ c_extname c)"
      and rest: "list_all (\<lambda>u. \<not> inherited u) (filter (\<lambda>u. u \<noteq> filename) (map (\<lambda>c. base @ c_extname c) cs))"
      by auto
    show ?thesis
      using False Cons.IH [OF rest]
      by (cases "map_of (assets m) (base @ c_extname c)")
         (auto simp: assetAt_ordinary [OF ni] List.map_filter_simps Let_def split: list.splits)
  qed
qed

lemma resolveFilename_ordinary:
  assumes "\<not> inherited (toLowerCase f0)"
    and "list_all (\<lambda>u. \<not> inherited u) (fallbackCandidates m (toLowerCase f0))"
  shows "resolveFilename m ident opts f0 =
     (case constituent m f0 of
        Some a \<Rightarrow> Inr (Own a)
      | None \<Rightarrow>
          Inl (''Asset '' @ quoted (toLowerCase f0) @ '' could not be found''
               @ (if given (opt_include opts) \<noteq> None then '' when building asset '' @ quoted ident else [])
               @ (if fallbackCandidates m (toLowerCase f0) = [] then []
                  else '' (tried '' @ quoted (join_with (quoted '', '') (fallbackCandidates m (toLowerCase f0))) @ '')'')))"
proof (cases "map_of (assets m) (toLowerCase f0)")
  case (Some a)
  then show ?thesis
    by (simp add: resolveFilename_def constituent_def assetAt_ordinary [OF assms(1)] Let_def)
next
  case None
  show ?thesis
  proof (cases "reverseCompilerIndex m (path_extname (toLowerCase f0))")
    case n: None
    then show ?thesis
      using None
      by (simp add: resolveFilename_def constituent_def assetAt_ordinary [OF assms(1)] Let_def
                    fallbackCandidates_def notFoundMessage_def List.map_filter_simps)
  next
    case (Some cs)
    from assms(2) Some
    have c: "list_all (\<lambda>u. \<not> inherited u)
               (filter (\<lambda>u. u \<noteq> toLowerCase f0) (map (\<lambda>c. fallbackBase (toLowerCase f0) @ c_extname c) cs))"
      by (simp add: fallbackCandidates_def)
    show ?thesis
      using None Some
      by (auto simp: resolveFilename_def constituent_def assetAt_ordinary [OF assms(1)] Let_def
                     fallbackCandidates_def fallbackBase_def notFoundMessage_def
                     findUncompiled_eq [OF c [unfolded fallbackBase_def]]
               split: list.splits)
  qed
qed

lemma resolveFilenames_ordinary:
  assumes "list_all (\<lambda>f. \<not> inherited (toLowerCase f)
                       \<and> list_all (\<lambda>u. \<not> inherited u) (fallbackCandidates m (toLowerCase f))) fs"
  shows "(list_ex (unresolvable m) fs \<longrightarrow> (\<exists>msg. resolveFilenames m ident opts fs acc = Inl msg))
       \<and> (\<not> list_ex (unresolvable m) fs \<longrightarrow>
            resolveFilenames m ident opts fs acc = Inr (acc @ map Own (List.map_filter (constituent m) fs)))"
  using assms
proof (induction fs arbitrary: acc)
  case Nil
  then show ?case by (simp add: List.map_filter_simps)
next
  case (Cons f fs)
  from Cons.prems have o: "\<not> inherited (toLowerCase f)"
      "list_all (\<lambda>u. \<not> inherited u) (fallbackCandidates m (toLowerCase f))"
    and rest: "list_all (\<lambda>f. \<not> inherited (toLowerCase f)
                       \<and> list_all (\<lambda>u. \<not> inherited u) (fallbackCandidates m (toLowerCase f))) fs"
    by auto
  note rf = resolveFilename_ordinary [OF o, of ident opts]
  show ?case
  proof (cases "constituent m f")
    case None
    then show ?thesis by (simp add: rf unresolvable_def)
  next
    case (Some a)
    with Cons.IH [OF rest, of "acc @ [Own a]"] show ?thesis
      by (simp add: rf unresolvable_def List.map_filter_simps)
  qed
qed

lemma findDependencies_ordinary:
  assumes "list_all (\<lambda>d. \<not> inherited d) ds"
  shows "(list_ex (\<lambda>d. map_of (assets m) d = None) ds \<longrightarrow> (\<exists>msg. findDependencies m ds acc = Inl msg))
       \<and> (\<not> list_ex (\<lambda>d. map_of (assets m) d = None) ds \<longrightarrow>
            findDependencies m ds acc = Inr (acc @ map Own (List.map_filter (map_of (assets m)) ds)))"
  using assms
proof (induction ds arbitrary: acc)
  case Nil
  then show ?case by (simp add: List.map_filter_simps)
next
  case (Cons d ds)
  from Cons.prems have o: "\<not> inherited d" and rest: "list_all (\<lambda>d. \<not> inherited d) ds" by auto
  show ?case
  proof (cases "map_of (assets m) d")
    case None
    then show ?thesis by (simp add: assetAt_ordinary [OF o])
  next
    case (Some a)
    with Cons.IH [OF rest, of "acc @ [Own a]"] show ?thesis
      by (simp add: assetAt_ordinary [OF o] List.map_filter_simps)
  qed
qed

lemma stripDuplicates_single: "stripDuplicates [x] = [x]"
  by (simp add: stripDuplicates_def)

lemma matchAssets_filter:
  "matchAssets mm g ks (matched, acc) =
     (matched \<or> filter (\<lambda>k. mm k g) ks \<noteq> [], acc @ filter (\<lambda>k. mm k g) ks)"
  by (induction ks arbitrary: matched acc) auto

lemma expandGlobs_loop_eq:
  "expandGlobs_loop m gs acc =
     (case find (unmatched m) gs of
        Some g \<Rightarrow> Inl (''No assets matched the pattern '' @ quoted g)
      | None \<Rightarrow> Inr (acc @ concat (map (expandEntry m) gs)))"
  by (induction gs arbitrary: acc)
     (auto simp: matchAssets_filter expandEntry_def unmatched_def split: option.splits)

lemma isGlob_iff:
  "isGlob g \<longleftrightarrow> (CHR ''*'' \<in> set g \<or> CHR ''?'' \<in> set g \<or> CHR ''{'' \<in> set g \<or> CHR ''}'' \<in> set g)"
  by (auto simp: isGlob_def list_ex_iff)

lemma find_None_list_ex: "(find P xs = None) = (\<not> list_ex P xs)"
  by (auto simp: find_None_iff list_ex_iff)

lemma expandGlobs_spec:
  "expandGlobs m gl =
     (if nothingMatched m gl
      then Inl (''No assets matched the pattern '' @ quoted (case find (unmatched m) (entries gl) of Some g \<Rightarrow> g | None \<Rightarrow> []))
      else Inr (concat (map (expandEntry m) (entries gl))))"
  by (auto simp: expandGlobs_def expandGlobs_loop_eq nothingMatched_def entries_def
                 find_None_list_ex [symmetric]
           split: option.splits globs.splits)

lemma bundleFilenames_spec:
  "(\<exists>msg. bundleFilenames m ident opts = Inl msg)
     = (case given (opt_include opts) of Some inc \<Rightarrow> nothingMatched m inc | None \<Rightarrow> False)"
  "bundleFilenames m ident opts = Inr fs \<Longrightarrow> stripDuplicates fs = fileList m ident opts"
  by (auto simp: bundleFilenames_def expandGlobs_spec fileList_def split: option.splits if_splits)

lemma resolveDependencies_ordinary:
  assumes "list_all (\<lambda>d. \<not> inherited d) (dependencyNames m opts)"
  shows "(dependencyFailure m opts \<longrightarrow> (\<exists>msg. resolveDependencies m ident opts = Inl msg))
       \<and> (\<not> dependencyFailure m opts \<longrightarrow>
            resolveDependencies m ident opts = Inr (map Own (dependencyFiles m opts)))"
proof (cases "given (opt_dependencies opts)")
  case None
  then show ?thesis
    by (simp add: resolveDependencies_def dependencyFailure_def dependencyFiles_def
                  dependencyNames_def List.map_filter_simps)
next
  case (Some deps)
  then have dn: "dependencyNames m opts = stripDuplicates (concat (map (expandEntry m) (entries deps)))"
    by (simp add: dependencyNames_def)
  show ?thesis
  proof (cases "nothingMatched m deps")
    case True
    with Some show ?thesis
      by (simp add: resolveDependencies_def dependencyFailure_def expandGlobs_spec)
  next
    case False
    note fd = findDependencies_ordinary [OF assms, of m "[]"]
    show ?thesis
    proof (cases "list_ex (\<lambda>d. map_of (assets m) d = None) (dependencyNames m opts)")
      case True
      with fd obtain msg where "findDependencies m (dependencyNames m opts) [] = Inl msg" by blast
      with Some False True show ?thesis
        by (simp add: resolveDependencies_def dependencyFailure_def expandGlobs_spec dn [symmetric])
    next
      case nf: False
      with fd have "findDependencies m (dependencyNames m opts) [] =
                      Inr (map Own (List.map_filter (map_of (assets m)) (dependencyNames m opts)))"
        by simp
      with Some False nf show ?thesis
        by (simp add: resolveDependencies_def dependencyFailure_def expandGlobs_spec dn [symmetric]
                      dependencyFiles_def)
    qed
  qed
qed


lemma assetHashes_Own: "assetHashes (map Own xs) = join_with '':'' (map hashText xs)"
  by (simp add: assetHashes_def entryHash_def comp_def hashText_def [abs_def])

lemma fingerprint_Own:
  "fingerprint m (map Own (constituents m ident opts)) (map Own (dependencyFiles m opts))
     = fingerprintOf '':'' m ident opts"
  using assetHashes_Own [of "constituents m ident opts @ dependencyFiles m opts"]
  by (simp add: fingerprint_def fingerprintOf_def)

lemma definePending_ordinary:
  assumes "\<not> inherited ident"
  shows "\<exists>m'. definePending m ident opts found deps
                = (Returned (outputPath m ident (fingerprint m found deps)), m')
           \<and> pendingAssets m' = (pendingAssets m)(ident \<mapsto>
                \<lparr> p_path = outputPath m ident (fingerprint m found deps), p_assets = found,
                  p_dependencies = deps, p_options = opts \<rparr>)
           \<and> events m' = events m \<and> errorListeners m' = errorListeners m \<and> options m' = options m
           \<and> compilingNow m' = compilingNow m"
  by (cases "compiledAssets m ident")
     (simp_all add: definePending_def getProperty_ordinary [OF assms] outputPath_def assetFilenameOf_def
                getCompiledAssetFilename_def Let_def)



lemma resolveAsset_success:
  assumes "ordinary m ident opts" and "\<not> configFailure m ident opts"
  shows "resolveAsset m ident opts =
           definePending m ident opts (map Own (constituents m ident opts)) (map Own (dependencyFiles m opts))"
proof -
  from assms(2) have nb: "\<not> (case given (opt_include opts) of Some inc \<Rightarrow> nothingMatched m inc | None \<Rightarrow> False)"
    and ne: "fileList m ident opts \<noteq> []"
    and nu: "\<not> list_ex (unresolvable m) (fileList m ident opts)"
    and nd: "\<not> dependencyFailure m opts"
    by (simp_all add: configFailure_def)
  from assms(1) have o1: "list_all (\<lambda>f. \<not> inherited (toLowerCase f)
                       \<and> list_all (\<lambda>u. \<not> inherited u) (fallbackCandidates m (toLowerCase f)))
                           (fileList m ident opts)"
    and o2: "list_all (\<lambda>d. \<not> inherited d) (dependencyNames m opts)"
    by (simp_all add: ordinary_def)
  from nb obtain fs0 where b: "bundleFilenames m ident opts = Inr fs0"
    using bundleFilenames_spec(1) [of m ident opts] by (cases "bundleFilenames m ident opts") auto
  note fl = bundleFilenames_spec(2) [OF b]
  from resolveFilenames_ordinary [OF o1, of ident opts "[]"] nu
  have f: "resolveFilenames m ident opts (fileList m ident opts) [] = Inr (map Own (constituents m ident opts))"
    by (simp add: constituents_def)
  from resolveDependencies_ordinary [OF o2, of ident] nd
  have d: "resolveDependencies m ident opts = Inr (map Own (dependencyFiles m opts))" by simp
  from b fl ne f d show ?thesis by (simp add: resolveAsset_def Let_def)
qed

lemma resolveAsset_resolved:
  assumes "ordinary m ident opts" and "\<not> configFailure m ident opts"
  shows "\<exists>m'. resolveAsset m ident opts = (Returned (outputPath m ident (fingerprintOf '':'' m ident opts)), m')
           \<and> pendingAssets m' = (pendingAssets m)(ident \<mapsto>
                \<lparr> p_path = outputPath m ident (fingerprintOf '':'' m ident opts),
                  p_assets = map Own (constituents m ident opts),
                  p_dependencies = map Own (dependencyFiles m opts), p_options = opts \<rparr>)
           \<and> events m' = events m \<and> errorListeners m' = errorListeners m \<and> options m' = options m
           \<and> compilingNow m' = compilingNow m"
proof -
  from assms(1) have ni: "\<not> inherited ident" by (simp add: ordinary_def)
  from definePending_ordinary [OF ni, of m opts "map Own (constituents m ident opts)"
         "map Own (dependencyFiles m opts)"]
  show ?thesis
    unfolding resolveAsset_success [OF assms] fingerprint_Own .
qed

lemma assetPath_effective:
  "assetPath m ident0 opts force =
     resolveAsset m (fst (effectiveCall m ident0 opts force)) (snd (effectiveCall m ident0 opts force))"
proof (cases "\<not> force \<and> inPending m (remapIdentifier m ident0)")
  case False
  then have c: "(\<not> force \<and> inPending m (remapIdentifier m ident0)) = False" by blast
  show ?thesis
    by (subst assetPath.simps) (simp only: c if_False effectiveCall_def fst_conv snd_conv)
next
  case True
  have "assetPath m ident0 opts force =
          assetPath m (remapIdentifier m ident0)
            (mergeDefaults (Some (copy opts)) (existingOptions m (remapIdentifier m ident0))) True"
    using True by (subst assetPath.simps) simp
  also have "\<dots> = resolveAsset m (remapIdentifier m (remapIdentifier m ident0))
                      (mergeDefaults (Some (copy opts)) (existingOptions m (remapIdentifier m ident0)))"
    by (subst assetPath.simps) simp
  finally show ?thesis using True by (simp add: effectiveCall_def)
qed










lemma chosenPrefix_given: "chosenPrefix m (Some opts) \<noteq> None"
  by (simp add: chosenPrefix_def)




section \<open>Properties of glob expansion\<close>

text \<open>
  C10.  An entry of \<^verbatim>\<open>include\<close> or \<^verbatim>\<open>dependencies\<close> is matched against the index as a
  glob exactly when it contains one of the characters \<^verbatim>\<open>* ? { }\<close>.  Any other entry is
  passed through as it is, whether or not an asset has that name: the only error of
  \<open>expandGlobs\<close> names an entry that is a glob and matches no asset.  An entry whose
  only glob syntax is a character class, such as \<^verbatim>\<open>[ab].js\<close>, is such a literal.
\<close>

theorem expandGlobs_glob_or_literal:
  "(isGlob g \<longleftrightarrow> (CHR ''*'' \<in> set g \<or> CHR ''?'' \<in> set g \<or> CHR ''{'' \<in> set g \<or> CHR ''}'' \<in> set g))
   \<and> (\<not> isGlob g \<longrightarrow> expandGlobs m (GlobString g) = Inr [g])
   \<and> (isGlob g \<longrightarrow> expandGlobs m (GlobString g) =
         (if filter (\<lambda>k. minimatch m k g) (map fst (assets m)) = []
          then Inl (''No assets matched the pattern '' @ quoted g)
          else Inr (filter (\<lambda>k. minimatch m k g) (map fst (assets m)))))
   \<and> expandGlobs m (GlobArray gs) =
         (case find (\<lambda>g'. isGlob g' \<and> filter (\<lambda>k. minimatch m k g') (map fst (assets m)) = []) gs of
            Some g' \<Rightarrow> Inl (''No assets matched the pattern '' @ quoted g')
          | None \<Rightarrow> Inr (concat (map (\<lambda>g'. if isGlob g' then filter (\<lambda>k. minimatch m k g') (map fst (assets m)) else [g']) gs)))
   \<and> \<not> isGlob ''[ab].js''
   \<and> expandGlobs m (GlobString ''[ab].js'') = Inr [''[ab].js'']"
proof -
  have a: "\<not> isGlob ''[ab].js''" by (simp add: isGlob_def)
  have b: "unmatched m = (\<lambda>g'. isGlob g' \<and> filter (\<lambda>k. minimatch m k g') (map fst (assets m)) = [])"
    by (simp add: unmatched_def fun_eq_iff)
  have c: "expandEntry m = (\<lambda>g'. if isGlob g' then filter (\<lambda>k. minimatch m k g') (map fst (assets m)) else [g'])"
    by (simp add: expandEntry_def fun_eq_iff)
  show ?thesis
    using a isGlob_iff [of g]
    by (simp add: expandGlobs_def expandGlobs_loop_eq b c split: option.splits)
qed

theorem expandGlobs_glob_or_literal_witness:
  "\<not> isGlob ''README'' \<and> expandGlobs demo (GlobString ''README'') = Inr [''README'']
   \<and> isGlob ''*.js'' \<and> expandGlobs demo (GlobString ''*.js'') = Inr [''jquery.js'', ''html5shiv.js'']
   \<and> expandGlobs demo (GlobString ''*.coffee'') = Inl (''No assets matched the pattern '' @ quoted ''*.coffee'')
   \<and> expandGlobs demo (GlobArray [''[ab].js'', ''*.js'']) = Inr [''[ab].js'', ''jquery.js'', ''html5shiv.js'']"
proof -
  have g1: "\<not> isGlob ''README''" by code_simp
  have g2: "isGlob ''*.js''" by code_simp
  have g3: "isGlob ''*.coffee''" by code_simp
  have f2: "filter (\<lambda>k. minimatch demo k ''*.js'') (map fst (assets demo)) = [''jquery.js'', ''html5shiv.js'']"
    by code_simp
  have f3: "filter (\<lambda>k. minimatch demo k ''*.coffee'') (map fst (assets demo)) = []"
    by code_simp
  have g4: "\<not> isGlob ''[ab].js''" by code_simp
  show ?thesis
    using expandGlobs_glob_or_literal [of "''README''" demo "[]"]
          expandGlobs_glob_or_literal [of "''*.js''" demo "[''[ab].js'', ''*.js'']"]
          expandGlobs_glob_or_literal [of "''*.coffee''" demo "[]"]
          g1 g2 g3 g4 f2 f3
    by simp
qed

section \<open>Properties of the names of compiled assets\<close>

text \<open>
  C9 (as amended).  Let the asset prefix contain no path separator, let \<open>f\<close> be a
  non-empty base name and \<open>h\<close> a non-empty string of hexadecimal digits.  If the prefix
  contains no \<^verbatim>\<open>-\<close>, \<open>getCanonicalPath\<close> gives \<open>f\<close> back from the compiled file name of
  \<open>f\<close> and \<open>h\<close>.  If the prefix contains none of the characters \<^verbatim>\<open>^\<close>, \<^verbatim>\<open>$\<close> and
  backslash, which \<open>escapeRegex\<close> leaves as they are, the compiled file name matches the
  pattern the constructor compiles from the prefix.  If the prefix contains a \<^verbatim>\<open>-\<close>, the
  round trip fails.
\<close>

theorem compiled_filename_roundtrip:
  assumes "CHR ''/'' \<notin> set (assetPrefix (options m))"
    and "f \<noteq> []" and "CHR ''/'' \<notin> set f"
    and "h \<noteq> []" and "\<forall>c\<in>set h. is_hex c"
  shows "(CHR ''-'' \<notin> set (assetPrefix (options m)) \<longrightarrow>
            getCanonicalPath (getCompiledAssetFilename m f h) = f)
       \<and> (rx_parse (compiledPatternSource (assetPrefix (options m))) = Some (compiledPattern m)
            \<and> CHR ''^'' \<notin> set (assetPrefix (options m)) \<and> CHR ''$'' \<notin> set (assetPrefix (options m))
            \<and> CHR 0x5C \<notin> set (assetPrefix (options m)) \<longrightarrow>
            isCompiledAsset m (getCompiledAssetFilename m f h))
       \<and> (CHR ''-'' \<in> set (assetPrefix (options m)) \<longrightarrow>
            getCanonicalPath (getCompiledAssetFilename m f h) \<noteq> f)"
proof (intro conjI impI)
  let ?p = "assetPrefix (options m)"
  show "getCanonicalPath (getCompiledAssetFilename m f h) = f" if "CHR ''-'' \<notin> set ?p"
    unfolding getCompiledAssetFilename_def
    by (rule canonical_of_compiled_name [OF assms(1) that assms(5,2,3)])
  show "getCanonicalPath (getCompiledAssetFilename m f h) \<noteq> f" if "CHR ''-'' \<in> set ?p"
    unfolding getCompiledAssetFilename_def
    by (rule canonical_of_dashed_prefix [OF assms(1) that assms(5,3)])
  show "isCompiledAsset m (getCompiledAssetFilename m f h)"
    if "rx_parse (compiledPatternSource ?p) = Some (compiledPattern m)
        \<and> CHR ''^'' \<notin> set ?p \<and> CHR ''$'' \<notin> set ?p \<and> CHR 0x5C \<notin> set ?p"
  proof -
    from that have "\<forall>c\<in>set ?p. c \<noteq> CHR ''^'' \<and> c \<noteq> CHR ''$'' \<and> c \<noteq> CHR 0x5C" by auto
    from compiledPattern_literal [OF this] that
    have cp: "compiledPattern m = Bol # map Lit ?p @ [Lit CHR ''-'', HexPlusLazy, Lit CHR ''-'']" by simp
    from assms(5) have "CHR ''/'' \<notin> set h" using is_hex_no_sep by blast
    with assms(1,3) have "CHR ''/'' \<notin> set (?p @ ''-'' @ h @ ''-'' @ f)" by simp
    from path_basename_no_slash [OF this] compiled_name_matches [OF assms(4,5), of ?p f]
    show ?thesis by (simp only: isCompiledAsset_def getCompiledAssetFilename_def cp)
  qed
qed

theorem compiled_filename_roundtrip_witness:
  "getCanonicalPath (getCompiledAssetFilename demo ''jquery.js'' ''82470a'') = ''jquery.js''
   \<and> isCompiledAsset demo (getCompiledAssetFilename demo ''jquery.js'' ''82470a'')
   \<and> getCanonicalPath (getCompiledAssetFilename (withPrefix ''my-asset'') ''jquery.js'' ''82470a'') \<noteq> ''jquery.js''"
proof -
  have a2: "CHR ''/'' \<notin> set (assetPrefix (options demo))" by code_simp
  have a3: "CHR ''-'' \<notin> set (assetPrefix (options demo))" by code_simp
  have a4: "rx_parse (compiledPatternSource (assetPrefix (options demo))) = Some (compiledPattern demo)
            \<and> CHR ''^'' \<notin> set (assetPrefix (options demo)) \<and> CHR ''$'' \<notin> set (assetPrefix (options demo))
            \<and> CHR 0x5C \<notin> set (assetPrefix (options demo))" by code_simp
  have b2: "CHR ''/'' \<notin> set (assetPrefix (options (withPrefix ''my-asset'')))" by code_simp
  have b3: "CHR ''-'' \<in> set (assetPrefix (options (withPrefix ''my-asset'')))" by code_simp
  have f: "''jquery.js'' \<noteq> []" "CHR ''/'' \<notin> set ''jquery.js''" by simp_all
  have h: "''82470a'' \<noteq> []" "\<forall>c\<in>set ''82470a''. is_hex c" by (simp_all add: is_hex_def)
  show ?thesis
    using compiled_filename_roundtrip [OF a2 f h] compiled_filename_roundtrip [OF b2 f h] a3 a4 b3
    by blast
qed

text \<open>
  Without the condition on the path separator the claim fails: with the prefix \<^verbatim>\<open>a/b\<close>
  the canonical path of \<^verbatim>\<open>a/b-abc-foo.js\<close> is \<^verbatim>\<open>a/foo.js\<close> and the name does not match the
  pattern; with the prefix \<^verbatim>\<open>a$\<close> the name does not match either; and with the prefix
  \<^verbatim>\<open>a-b/../c\<close>, which contains a \<^verbatim>\<open>-\<close>, the round trip holds.  With the default prefix,
  the empty base name comes back as \<^verbatim>\<open>.\<close>, and a name with an empty hash does not match
  the pattern.
\<close>

theorem compiled_filename_roundtrip_counterexample:
  "CHR ''-'' \<notin> set (assetPrefix (options (withPrefix ''a/b'')))
   \<and> rx_parse (compiledPatternSource ''a/b'') = Some (compiledPattern (withPrefix ''a/b''))
   \<and> getCompiledAssetFilename (withPrefix ''a/b'') ''foo.js'' ''abc'' = ''a/b-abc-foo.js''
   \<and> getCanonicalPath ''a/b-abc-foo.js'' = ''a/foo.js''
   \<and> \<not> isCompiledAsset (withPrefix ''a/b'') ''a/b-abc-foo.js''
   \<and> CHR ''-'' \<notin> set (assetPrefix (options (withPrefix ''a$'')))
   \<and> rx_parse (compiledPatternSource ''a$'') = Some (compiledPattern (withPrefix ''a$''))
   \<and> getCompiledAssetFilename (withPrefix ''a$'') ''foo.js'' ''abc'' = ''a$-abc-foo.js''
   \<and> \<not> isCompiledAsset (withPrefix ''a$'') ''a$-abc-foo.js''
   \<and> CHR ''-'' \<in> set (assetPrefix (options (withPrefix ''a-b/../c'')))
   \<and> getCanonicalPath (getCompiledAssetFilename (withPrefix ''a-b/../c'') ''foo.js'' ''abc'') = ''foo.js''
   \<and> getCanonicalPath (getCompiledAssetFilename demo [] ''abc'') = ''.''
   \<and> \<not> isCompiledAsset demo (getCompiledAssetFilename demo ''foo.js'' [])"
  by code_simp

section \<open>Properties of the compilation pipeline\<close>

lemma compileEach_ok:
  "fileFailure m fs a = None \<Longrightarrow>
     compileEach m fs (a # as) contents log =
       compileEach m fs as (contents @ [fileOutput m fs a]) (log @ fileOps m fs a)"
  by (auto simp: fileFailure_def fileOps_def fileOutput_def Let_def split: sum.splits option.splits)

lemma compileEach_fails:
  "fileFailure m fs a = Some e \<Longrightarrow>
     compileEach m fs (a # as) contents log = (Inl e, log @ fileOps m fs a)"
  by (auto simp: fileFailure_def fileOps_def fileOutput_def Let_def split: sum.splits option.splits)

lemma compileEach_eq:
  "compileEach m fs as contents log =
     (case find (\<lambda>a. fileFailure m fs a \<noteq> None) as of
        Some a \<Rightarrow>
          (Inl (case fileFailure m fs a of Some e \<Rightarrow> e | None \<Rightarrow> Uncaught []),
           log @ concat (map (fileOps m fs) (takeWhile (\<lambda>a. fileFailure m fs a = None) as @ [a])))
      | None \<Rightarrow>
          (Inr (contents @ map (fileOutput m fs) as), log @ concat (map (fileOps m fs) as)))"
proof (induction as arbitrary: contents log)
  case Nil
  then show ?case by simp
next
  case (Cons a as)
  show ?case
  proof (cases "fileFailure m fs a")
    case None
    show ?thesis
      unfolding compileEach_ok [OF None] Cons using None by (simp split: option.splits)
  next
    case (Some e)
    show ?thesis
      unfolding compileEach_fails [OF Some] using Some by simp
  qed
qed

lemma fileOps_no_write: "\<not> list_ex is_write (concat (map (fileOps m fs) as))"
  by (induction as) (auto simp: fileOps_def is_write_def split: sum.splits option.splits)

lemma compileAsset_file_failure:
  assumes "find (\<lambda>a. fileFailure m fs a \<noteq> None) (p_assets file) = Some a"
  shows "compileAsset m fs file =
           (fileFailure m fs a, fs,
            concat (map (fileOps m fs) (takeWhile (\<lambda>a. fileFailure m fs a = None) (p_assets file) @ [a])))"
proof -
  from assms have "fileFailure m fs a \<noteq> None" by (auto simp: find_Some_iff)
  then obtain e where e: "fileFailure m fs a = Some e" by auto
  show ?thesis
    unfolding compileAsset_def compileEach_eq assms using e by simp
qed

lemma compileAsset_no_file_failure:
  assumes "find (\<lambda>a. fileFailure m fs a \<noteq> None) (p_assets file) = None"
  shows "compileAsset m fs file =
           (case compressFailure m fs file of
              Some e \<Rightarrow>
                (Some e, fs,
                 concat (map (fileOps m fs) (p_assets file)) @ [RunCompressor (path_join [dir m, p_path file])])
            | None \<Rightarrow>
                (case (if compress (options m)
                       then map_of (compressors (options m)) (path_extname (path_join [dir m, p_path file]))
                       else None) of
                   None \<Rightarrow>
                     (case writeFile fs (path_join [dir m, p_path file]) (assembled m fs file) of
                        (err, fs') \<Rightarrow>
                          (err, fs', concat (map (fileOps m fs) (p_assets file))
                                     @ [WriteFile (path_join [dir m, p_path file]) (assembled m fs file)]))
                 | Some compressor \<Rightarrow>
                     (case compressor (assembled m fs file) of
                        Inl e \<Rightarrow> (Some (Reported e), fs, [])
                      | Inr compressed \<Rightarrow>
                          (case writeFile fs (path_join [dir m, p_path file]) compressed of
                             (err, fs') \<Rightarrow>
                               (err, fs', concat (map (fileOps m fs) (p_assets file))
                                  @ [RunCompressor (path_join [dir m, p_path file]),
                                     WriteFile (path_join [dir m, p_path file]) compressed])))))"
  unfolding compileAsset_def compileEach_eq assms
  by (auto simp: compressFailure_def assembled_def Let_def split: option.splits sum.splits prod.splits)

text \<open>
  C7.  When a constituent file cannot be read or compiled, \<open>compileAsset\<close> stops at
  that file: the files after it are not touched, the callback gets the one error that names
  the file and the stage, and the file system is as it was.  When the compressor fails the
  callback gets the one error that names the asset and the stage, and nothing is written.
  A write is attempted only when no stage has failed.  A constituent that is no file (a
  value without a name) ends the pipeline at its place with a TypeError, and nothing is
  written either.
\<close>

theorem compileAsset_aborts_without_writing:
  "(\<forall>a. find (\<lambda>a. fileFailure m fs a \<noteq> None) (p_assets file) = Some a \<longrightarrow>
        fileFailure m fs a \<noteq> None \<and>
        compileAsset m fs file =
          (fileFailure m fs a, fs,
           concat (map (fileOps m fs)
             (takeWhile (\<lambda>a. fileFailure m fs a = None) (p_assets file) @ [a]))))
   \<and> (\<forall>e. find (\<lambda>a. fileFailure m fs a \<noteq> None) (p_assets file) = None
            \<and> compressFailure m fs file = Some e \<longrightarrow>
        compileAsset m fs file =
          (Some e, fs,
           concat (map (fileOps m fs) (p_assets file)) @ [RunCompressor (path_join [dir m, p_path file])]))
   \<and> (\<forall>e. firstFailure m fs file = Some e \<longrightarrow>
        fst (compileAsset m fs file) = Some e
        \<and> fst (snd (compileAsset m fs file)) = fs
        \<and> \<not> list_ex is_write (snd (snd (compileAsset m fs file))))
   \<and> (list_ex is_write (snd (snd (compileAsset m fs file))) \<longrightarrow> firstFailure m fs file = None)
   \<and> (\<forall>a e. fileFailure m fs a = Some e \<longrightarrow>
        (case entryName a of
           None \<Rightarrow> e = Uncaught ''TypeError''
         | Some n \<Rightarrow>
             (\<exists>err. e = Reported (''Failed to read file '' @ quoted n @ '': '' @ err)
                  \<or> e = Reported (''Failed to compile file '' @ quoted n @ '': '' @ err))))
   \<and> (\<forall>a e. fileFailure m fs (Own a) = Some e \<longrightarrow>
        (\<exists>err. e = Reported (''Failed to read file '' @ quoted (name a) @ '': '' @ err)
             \<or> e = Reported (''Failed to compile file '' @ quoted (name a) @ '': '' @ err)))
   \<and> (\<forall>e. compressFailure m fs file = Some e \<longrightarrow>
        (\<exists>err. e = Reported (''Failed to compress asset '' @ quoted (p_path file) @ '': '' @ err)))"
proof -
  let ?F = "find (\<lambda>a. fileFailure m fs a \<noteq> None) (p_assets file)"
  have nw: "\<And>as. \<not> list_ex is_write (concat (map (fileOps m fs) as))"
    by (rule fileOps_no_write)
  have p1: "fileFailure m fs a \<noteq> None \<and>
        compileAsset m fs file =
          (fileFailure m fs a, fs,
           concat (map (fileOps m fs)
             (takeWhile (\<lambda>a. fileFailure m fs a = None) (p_assets file) @ [a])))"
    if "?F = Some a" for a
    using that compileAsset_file_failure [OF that] by (auto simp: find_Some_iff)
  have p2: "compileAsset m fs file =
          (Some e, fs,
           concat (map (fileOps m fs) (p_assets file)) @ [RunCompressor (path_join [dir m, p_path file])])"
    if "?F = None \<and> compressFailure m fs file = Some e" for e
    using compileAsset_no_file_failure [OF conjunct1 [OF that]] conjunct2 [OF that] by simp
  have p3: "fst (compileAsset m fs file) = Some e
        \<and> fst (snd (compileAsset m fs file)) = fs
        \<and> \<not> list_ex is_write (snd (snd (compileAsset m fs file)))"
    if "firstFailure m fs file = Some e" for e
  proof (cases ?F)
    case None
    with that have "compressFailure m fs file = Some e" by (simp add: firstFailure_def)
    with None p2 [of e] nw [of "p_assets file"] show ?thesis by (simp add: is_write_def)
  next
    case (Some a)
    with that have "fileFailure m fs a = Some e" by (simp add: firstFailure_def)
    with p1 [OF Some] nw [of "takeWhile (\<lambda>a. fileFailure m fs a = None) (p_assets file) @ [a]"]
    show ?thesis by simp
  qed
  have p4: "firstFailure m fs file = None" if "list_ex is_write (snd (snd (compileAsset m fs file)))"
    using that p3 by (cases "firstFailure m fs file") auto
  have p5: "(case entryName a of
           None \<Rightarrow> e = Uncaught ''TypeError''
         | Some n \<Rightarrow>
             (\<exists>err. e = Reported (''Failed to read file '' @ quoted n @ '': '' @ err)
                  \<or> e = Reported (''Failed to compile file '' @ quoted n @ '': '' @ err)))"
    if "fileFailure m fs a = Some e" for a e
    using that by (auto simp: fileFailure_def split: sum.splits option.splits)
  have p5': "\<exists>err. e = Reported (''Failed to read file '' @ quoted (name a) @ '': '' @ err)
             \<or> e = Reported (''Failed to compile file '' @ quoted (name a) @ '': '' @ err)"
    if "fileFailure m fs (Own a) = Some e" for a e
    using that by (auto simp: fileFailure_def entryName_def split: sum.splits option.splits)
  have p6: "\<exists>err. e = Reported (''Failed to compress asset '' @ quoted (p_path file) @ '': '' @ err)"
    if "compressFailure m fs file = Some e" for e
    using that by (auto simp: compressFailure_def split: sum.splits option.splits if_splits)
  show ?thesis
    apply (rule conjI)
     apply (intro allI impI)
     apply (erule p1)
    apply (rule conjI)
     apply (intro allI impI)
     apply (erule p2)
    apply (rule conjI)
     apply (intro allI impI)
     apply (erule p3)
    apply (rule conjI)
     apply (rule impI)
     apply (erule p4)
    apply (rule conjI)
     apply (intro allI impI)
     apply (erule p5)
    apply (rule conjI)
     apply (intro allI impI)
     apply (erule p5')
    apply (intro allI impI)
    apply (erule p6)
    done
qed

theorem compileAsset_aborts_without_writing_witness:
  "compileAsset demo demoFs demoBundle =
     (Some (Reported (''Failed to read file '' @ quoted ''html5shiv.js'' @ '': ENOENT'')), demoFs,
      [ReadFile ''/srv/static/jquery.js'', ReadFile ''/srv/static/html5shiv.js''])
   \<and> compileAsset demoCompressing demoFs demoSingle =
     (Some (Reported (''Failed to compress asset '' @ quoted ''/asset-6a-jquery.js'' @ '': Unexpected token'')), demoFs,
      [ReadFile ''/srv/static/jquery.js'', RunCompressor ''/srv/static/asset-6a-jquery.js''])
   \<and> list_ex is_write (snd (snd (compileAsset demo demoFs demoSingle)))
   \<and> firstFailure demo demoFs demoSingle = None"
proof -
  have a: "find (\<lambda>a. fileFailure demo demoFs a \<noteq> None) (p_assets demoBundle)
             = Some (Own \<lparr> name = ''html5shiv.js'', mtime = 2, hash = Some (JStr ''b0'') \<rparr>)"
    by code_simp
  have b: "fileFailure demo demoFs (Own \<lparr> name = ''html5shiv.js'', mtime = 2, hash = Some (JStr ''b0'') \<rparr>)
             = Some (Reported (''Failed to read file '' @ quoted ''html5shiv.js'' @ '': ENOENT''))"
    by code_simp
  have c: "concat (map (fileOps demo demoFs)
             (takeWhile (\<lambda>a. fileFailure demo demoFs a = None) (p_assets demoBundle)
              @ [Own \<lparr> name = ''html5shiv.js'', mtime = 2, hash = Some (JStr ''b0'') \<rparr>]))
           = [ReadFile ''/srv/static/jquery.js'', ReadFile ''/srv/static/html5shiv.js'']"
    by code_simp
  have d: "find (\<lambda>a. fileFailure demoCompressing demoFs a \<noteq> None) (p_assets demoSingle) = None
           \<and> compressFailure demoCompressing demoFs demoSingle
               = Some (Reported (''Failed to compress asset '' @ quoted ''/asset-6a-jquery.js'' @ '': Unexpected token''))"
    by code_simp
  have e: "concat (map (fileOps demoCompressing demoFs) (p_assets demoSingle))
             @ [RunCompressor (path_join [dir demoCompressing, p_path demoSingle])]
           = [ReadFile ''/srv/static/jquery.js'', RunCompressor ''/srv/static/asset-6a-jquery.js'']"
    by code_simp
  have f: "list_ex is_write (snd (snd (compileAsset demo demoFs demoSingle)))"
    by code_simp
  note t1 = compileAsset_aborts_without_writing [of demo demoFs demoBundle, THEN conjunct1, rule_format, OF a]
  note t2 = compileAsset_aborts_without_writing [of demoCompressing demoFs demoSingle,
              THEN conjunct2, THEN conjunct1, rule_format, OF d]
  note t3 = compileAsset_aborts_without_writing [of demo demoFs demoSingle,
              THEN conjunct2, THEN conjunct2, THEN conjunct2, THEN conjunct1, rule_format, OF f]
  have r1: "compileAsset demo demoFs demoBundle =
     (Some (Reported (''Failed to read file '' @ quoted ''html5shiv.js'' @ '': ENOENT'')), demoFs,
      [ReadFile ''/srv/static/jquery.js'', ReadFile ''/srv/static/html5shiv.js''])"
    using t1 unfolding b c by (rule conjunct2)
  have r2: "compileAsset demoCompressing demoFs demoSingle =
     (Some (Reported (''Failed to compress asset '' @ quoted ''/asset-6a-jquery.js'' @ '': Unexpected token'')), demoFs,
      [ReadFile ''/srv/static/jquery.js'', RunCompressor ''/srv/static/asset-6a-jquery.js''])"
    using t2 unfolding e .
  from r1 r2 f t3 show ?thesis by (intro conjI)
qed

section \<open>Properties of the request serializer\<close>

lemma fail_with_frame:
  "compilingNow (snd (fail_with m msg)) = compilingNow m"
  by (simp add: fail_with_def emit_error_def)

lemma definePending_frame:
  "compilingNow (snd (definePending m identifier opts found deps)) = compilingNow m"
  by (simp add: definePending_def Let_def split: option.splits property.splits)

lemma resolveAsset_frame:
  "compilingNow (snd (resolveAsset m identifier opts)) = compilingNow m"
  by (simp add: resolveAsset_def Let_def fail_with_frame definePending_frame split: sum.splits)

lemma assetPath_frame:
  "compilingNow (snd (assetPath m ident opts force)) = compilingNow m"
  by (simp add: assetPath_effective resolveAsset_frame)

lemma step_invariant:
  assumes "dom (compilingNow (mgr s)) = dom (inflight s)"
    and "\<forall>err. ev \<noteq> Completed [] err"
  shows "dom (compilingNow (mgr (step s ev))) = dom (inflight (step s ev))"
proof (cases ev)
  case (Request rid url)
  with assms(1) show ?thesis
    by (auto simp: compileMiddleware_def pass_def reject_def hasProperty_def Let_def
             split: option.splits if_splits)
next
  case (Completed canonical err)
  with assms(2) have "canonical \<noteq> []" by auto
  with assms(1) Completed show ?thesis
    by (auto simp: resumeMiddleware_def reject_def Let_def split: option.splits if_splits)
next
  case (Resolve ident opts)
  with assms(1) show ?thesis by (simp add: assetPath_frame)
qed

lemma run_invariant:
  assumes "dom (compilingNow (mgr s)) = dom (inflight s)"
    and "\<forall>ev\<in>set evs. \<forall>err. ev \<noteq> Completed [] err"
  shows "dom (compilingNow (mgr (run s evs))) = dom (inflight (run s evs))"
  using assms unfolding run_def
  by (induction evs arbitrary: s) (simp_all add: step_invariant)

text \<open>
  As long as no compilation of the empty name ends, the keys of \<open>compilingNow\<close> are the
  names whose compilation is running.  A request for a name that is compiling is appended
  to the queue of the name and starts no compilation; the first request for a pending name
  that is not among the inherited ones makes the entry and starts the one compilation.  When
  the compilation of a name other than the empty one ends, the entry is deleted and every
  queued request, then the request that started the compilation, is resumed with the same
  outcome.
\<close>

lemma serializer_of_named_assets:
  assumes "compilingNow m = Map.empty"
    and "\<forall>ev\<in>set evs. \<forall>err. ev \<noteq> Completed [] err"
  shows
   "dom (compilingNow (mgr (run (init m) evs))) = dom (inflight (run (init m) evs))
    \<and> (\<forall>rid url waiting.
          isCompiledAsset (mgr (run (init m) evs)) url
          \<and> inPending (mgr (run (init m) evs)) (drop 1 (getCanonicalPath url))
          \<and> compilingNow (mgr (run (init m) evs)) (drop 1 (getCanonicalPath url)) = Some waiting \<longrightarrow>
            compilingNow (mgr (step (run (init m) evs) (Request rid url))) =
              (compilingNow (mgr (run (init m) evs)))(drop 1 (getCanonicalPath url) \<mapsto> waiting @ [rid])
            \<and> invoked (step (run (init m) evs) (Request rid url)) = invoked (run (init m) evs)
            \<and> inflight (step (run (init m) evs) (Request rid url)) = inflight (run (init m) evs)
            \<and> delivered (step (run (init m) evs) (Request rid url)) = delivered (run (init m) evs))
    \<and> (\<forall>rid url.
          isCompiledAsset (mgr (run (init m) evs)) url
          \<and> inPending (mgr (run (init m) evs)) (drop 1 (getCanonicalPath url))
          \<and> \<not> inherited (drop 1 (getCanonicalPath url))
          \<and> compilingNow (mgr (run (init m) evs)) (drop 1 (getCanonicalPath url)) = None \<longrightarrow>
            compilingNow (mgr (step (run (init m) evs) (Request rid url))) =
              (compilingNow (mgr (run (init m) evs)))(drop 1 (getCanonicalPath url) \<mapsto> [])
            \<and> invoked (step (run (init m) evs) (Request rid url))
                = invoked (run (init m) evs) @ [drop 1 (getCanonicalPath url)]
            \<and> inflight (step (run (init m) evs) (Request rid url))
                = (inflight (run (init m) evs))(drop 1 (getCanonicalPath url) \<mapsto> rid)
            \<and> delivered (step (run (init m) evs) (Request rid url)) = delivered (run (init m) evs))
    \<and> (\<forall>canonical err rid.
          inflight (run (init m) evs) canonical = Some rid \<and> canonical \<noteq> [] \<longrightarrow>
            (\<exists>waiting.
               compilingNow (mgr (run (init m) evs)) canonical = Some waiting
               \<and> compilingNow (mgr (step (run (init m) evs) (Completed canonical err))) =
                   (compilingNow (mgr (run (init m) evs)))(canonical := None)
               \<and> inflight (step (run (init m) evs) (Completed canonical err))
                   = (inflight (run (init m) evs))(canonical := None)
               \<and> invoked (step (run (init m) evs) (Completed canonical err)) = invoked (run (init m) evs)
               \<and> delivered (step (run (init m) evs) (Completed canonical err)) =
                   delivered (run (init m) evs) @ map (\<lambda>r. (r, outcome_of err)) (waiting @ [rid])))"
proof -
  define s where "s = run (init m) evs"
  have inv: "dom (compilingNow (mgr s)) = dom (inflight s)"
    unfolding s_def using assms by (intro run_invariant) (simp_all add: init_def)
  have waits: "compilingNow (mgr (step s (Request rid url))) =
              (compilingNow (mgr s))(drop 1 (getCanonicalPath url) \<mapsto> waiting @ [rid])
            \<and> invoked (step s (Request rid url)) = invoked s
            \<and> inflight (step s (Request rid url)) = inflight s
            \<and> delivered (step s (Request rid url)) = delivered s"
    if "isCompiledAsset (mgr s) url
          \<and> inPending (mgr s) (drop 1 (getCanonicalPath url))
          \<and> compilingNow (mgr s) (drop 1 (getCanonicalPath url)) = Some waiting"
    for rid url waiting
    using that by (auto simp: compileMiddleware_def hasProperty_def Let_def)
  have starts: "compilingNow (mgr (step s (Request rid url))) =
              (compilingNow (mgr s))(drop 1 (getCanonicalPath url) \<mapsto> [])
            \<and> invoked (step s (Request rid url)) = invoked s @ [drop 1 (getCanonicalPath url)]
            \<and> inflight (step s (Request rid url)) = (inflight s)(drop 1 (getCanonicalPath url) \<mapsto> rid)
            \<and> delivered (step s (Request rid url)) = delivered s"
    if "isCompiledAsset (mgr s) url
          \<and> inPending (mgr s) (drop 1 (getCanonicalPath url))
          \<and> \<not> inherited (drop 1 (getCanonicalPath url))
          \<and> compilingNow (mgr s) (drop 1 (getCanonicalPath url)) = None"
    for rid url
    using that by (auto simp: compileMiddleware_def hasProperty_def Let_def)
  have resumes: "\<exists>waiting.
               compilingNow (mgr s) canonical = Some waiting
               \<and> compilingNow (mgr (step s (Completed canonical err))) =
                   (compilingNow (mgr s))(canonical := None)
               \<and> inflight (step s (Completed canonical err)) = (inflight s)(canonical := None)
               \<and> invoked (step s (Completed canonical err)) = invoked s
               \<and> delivered (step s (Completed canonical err)) =
                   delivered s @ map (\<lambda>r. (r, outcome_of err)) (waiting @ [rid])"
    if "inflight s canonical = Some rid \<and> canonical \<noteq> []" for canonical err rid
  proof -
    from that inv have "canonical \<in> dom (compilingNow (mgr s))" by auto
    then obtain waiting where w: "compilingNow (mgr s) canonical = Some waiting" by auto
    show ?thesis
      using that w by (auto simp: resumeMiddleware_def Let_def outcome_of_def)
  qed
  show ?thesis
    unfolding s_def [symmetric]
    apply (rule conjI [OF inv])
    apply (rule conjI)
     apply (intro allI impI)
     apply (erule waits)
    apply (rule conjI)
     apply (intro allI impI)
     apply (erule starts)
    apply (intro allI impI)
    apply (erule resumes)
    done
qed

text \<open>
  C2.  The claim has the registry entry of every canonical path deleted, and every queued
  request released, when the compilation of the path ends.  The handlers that do so first
  test \<^verbatim>\<open>if (!request._canonicalAssetName)\<close> to pass on the requests that started no
  compilation, and the empty name is falsy as well.  A bundle defined under the empty
  name has the path \<^verbatim>\<open>/asset-36-\<close>, whose canonical name is empty: the first request for
  it starts the compilation and the second is queued; when the compilation ends, with an
  error or without, the first request alone gets the outcome, the entry stays with the
  second request in it, and a third request is queued behind it, while no compilation is
  running.  The same bundle under the
  name \<^verbatim>\<open>all.js\<close> is served as the claim has it: both requests get the error and the
  entry is deleted.  A request whose canonical name is one that
  objects inherit is neither queued nor passed on: it fails with a TypeError.
\<close>

theorem serializer_keeps_empty_name:
  "fst (assetPath demo [] jsBundleOptions False) = Returned ''/asset-36-''
   \<and> isCompiledAsset demo ''/asset-36-''
   \<and> drop 1 (getCanonicalPath ''/asset-36-'') = []
   \<and> compilingNow (mgr (run (init demo) (take 3 emptyNameTrace))) [] = Some [2]
   \<and> inflight (run (init demo) (take 3 emptyNameTrace)) [] = Some 1
   \<and> invoked (run (init demo) (take 3 emptyNameTrace)) = [[]]
   \<and> delivered (run (init demo) (take 3 emptyNameTrace)) = []
   \<and> compilingNow (mgr (run (init demo) emptyNameTrace)) [] = Some [2]
   \<and> inflight (run (init demo) emptyNameTrace) [] = None
   \<and> delivered (run (init demo) emptyNameTrace) = [(1, Failed ''ENOENT'')]
   \<and> compilingNow (mgr (run (init demo) (take 3 emptyNameTrace @ [Completed [] None]))) [] = Some [2]
   \<and> inflight (run (init demo) (take 3 emptyNameTrace @ [Completed [] None])) [] = None
   \<and> delivered (run (init demo) (take 3 emptyNameTrace @ [Completed [] None])) = [(1, Proceed)]
   \<and> compilingNow (mgr (run (init demo) (emptyNameTrace @ [Request 3 ''/asset-36-'']))) [] = Some [2, 3]
   \<and> invoked (run (init demo) (emptyNameTrace @ [Request 3 ''/asset-36-''])) = [[]]
   \<and> delivered (run (init demo) (emptyNameTrace @ [Request 3 ''/asset-36-''])) = [(1, Failed ''ENOENT'')]
   \<and> compilingNow (mgr (run (init demo) bundleTrace)) ''all.js'' = None
   \<and> inflight (run (init demo) bundleTrace) ''all.js'' = None
   \<and> invoked (run (init demo) bundleTrace) = [''all.js'']
   \<and> delivered (run (init demo) bundleTrace) = [(2, Failed ''ENOENT''), (1, Failed ''ENOENT'')]
   \<and> drop 1 (getCanonicalPath ''/asset-6a-constructor'') = ''constructor''
   \<and> delivered (run (init demo) [Request 1 ''/asset-6a-constructor'']) = [(1, Failed ''TypeError'')]
   \<and> invoked (run (init demo) [Request 1 ''/asset-6a-constructor'']) = []"
  by code_simp

section \<open>Properties of the hash cache\<close>

text \<open>
  C8.  The claim has a manifest that is absent or malformed treated as the empty manifest,
  without an exception.  That holds for a file that is missing, is not JSON, or holds a
  JSON string; a manifest the manager wrote itself is reused (nothing is outdated); and
  where the modification time of one entry differs, that file alone is hashed afresh and
  the manifest is written again.
  But \<^verbatim>\<open>typeof null\<close> is \<^verbatim>\<open>'object'\<close>, so a manifest file that holds \<^verbatim>\<open>null\<close> passes the
  assertion inside the \<^verbatim>\<open>try\<close>, and the loop's \<^verbatim>\<open>filename in manifest\<close> throws a
  TypeError outside of it; an entry that is \<^verbatim>\<open>null\<close> throws at \<^verbatim>\<open>.mtime\<close> likewise.
\<close>

theorem hashAssets_null_manifest_throws:
  "loadManifest (manifestOnDisk nullManifest) = JNull
   \<and> fst (fst (hashAssets demo nullManifest)) = Thrown ''TypeError''
   \<and> fst (fst (hashAssets demo nullEntryManifest)) = Thrown ''TypeError''
   \<and> fst (fst (hashAssets demo \<lparr> manifestOnDisk = Absent, writeError = None \<rparr>)) = Returned True
   \<and> fst (fst (hashAssets demo \<lparr> manifestOnDisk = Malformed, writeError = None \<rparr>)) = Returned True
   \<and> fst (fst (hashAssets demo \<lparr> manifestOnDisk = Parsed (JStr ''x''), writeError = None \<rparr>)) = Returned True
   \<and> fst (fst (hashAssets demo \<lparr> manifestOnDisk = Parsed (manifestOf (assets demo)), writeError = None \<rparr>)) = Returned False
   \<and> assets (snd (fst (hashAssets demo \<lparr> manifestOnDisk = Parsed (manifestOf (assets demo)), writeError = None \<rparr>)))
       = assets demo
   \<and> fst (fst (hashAssets demo staleManifest)) = Returned True
   \<and> assets (snd (fst (hashAssets demo staleManifest)))
       = (''jquery.js'', \<lparr> name = ''jquery.js'', mtime = 1,
                              hash = Some (JStr (hashFile demo ''/srv/static/jquery.js'' ''md5'')) \<rparr>)
         # tl demoAssets
   \<and> manifestOnDisk (snd (hashAssets demo staleManifest))
       = Parsed (manifestOf (assets (snd (fst (hashAssets demo staleManifest)))))"
  by code_simp

section \<open>Properties of the fingerprint\<close>

text \<open>
  C3 (as amended).  Let \<open>assetPath\<close> resolve an identifier with options for which there
  is no configuration failure, no name that is looked up being one that objects inherit.
  Then the path it returns embeds the fingerprint of the identifier: the configured hash
  function applied to the content hashes of the constituent files followed by the
  dependency files, in list order and joined with a colon (a file without a hash
  contributes the empty string), cut to the configured hash length.  The pending entry it
  stores holds that path, those constituent files and those dependency files.  The
  fingerprint is a function of the ordered list of hashes: another resolution whose list is
  equal returns a path with the same fingerprint, under the same hash function, name and
  length.
\<close>

theorem fingerprint_of_output_path:
  assumes "ordinary m (fst (effectiveCall m ident0 opts force)) (snd (effectiveCall m ident0 opts force))"
    and "\<not> configFailure m (fst (effectiveCall m ident0 opts force)) (snd (effectiveCall m ident0 opts force))"
  shows
   "fst (assetPath m ident0 opts force) =
      Returned (outputPath m (fst (effectiveCall m ident0 opts force))
                  (fingerprintOf '':'' m (fst (effectiveCall m ident0 opts force))
                     (snd (effectiveCall m ident0 opts force))))
    \<and> pendingAssets (snd (assetPath m ident0 opts force)) (fst (effectiveCall m ident0 opts force)) =
        Some \<lparr> p_path = outputPath m (fst (effectiveCall m ident0 opts force))
                           (fingerprintOf '':'' m (fst (effectiveCall m ident0 opts force))
                              (snd (effectiveCall m ident0 opts force))),
               p_assets = map Own (constituents m (fst (effectiveCall m ident0 opts force))
                                     (snd (effectiveCall m ident0 opts force))),
               p_dependencies = map Own (dependencyFiles m (snd (effectiveCall m ident0 opts force))),
               p_options = snd (effectiveCall m ident0 opts force) \<rparr>
    \<and> fingerprintOf '':'' m (fst (effectiveCall m ident0 opts force)) (snd (effectiveCall m ident0 opts force)) =
        slice0 (hashLength (options m))
          (hashString m
             (join_with '':''
                (map (\<lambda>a. join_element (hash a))
                   (constituents m (fst (effectiveCall m ident0 opts force))
                      (snd (effectiveCall m ident0 opts force))
                    @ dependencyFiles m (snd (effectiveCall m ident0 opts force)))))
             (hashName (options m)))
    \<and> (\<forall>m2 ident2 opts2 force2.
          ordinary m2 (fst (effectiveCall m2 ident2 opts2 force2)) (snd (effectiveCall m2 ident2 opts2 force2))
          \<and> \<not> configFailure m2 (fst (effectiveCall m2 ident2 opts2 force2))
                (snd (effectiveCall m2 ident2 opts2 force2))
          \<and> hashString m2 = hashString m \<and> hashName (options m2) = hashName (options m)
          \<and> hashLength (options m2) = hashLength (options m)
          \<and> map hashText (constituents m2 (fst (effectiveCall m2 ident2 opts2 force2))
                             (snd (effectiveCall m2 ident2 opts2 force2))
                           @ dependencyFiles m2 (snd (effectiveCall m2 ident2 opts2 force2)))
              = map hashText
                  (constituents m (fst (effectiveCall m ident0 opts force))
                     (snd (effectiveCall m ident0 opts force))
                   @ dependencyFiles m (snd (effectiveCall m ident0 opts force))) \<longrightarrow>
          fst (assetPath m2 ident2 opts2 force2) =
            Returned (outputPath m2 (fst (effectiveCall m2 ident2 opts2 force2))
                        (fingerprintOf '':'' m (fst (effectiveCall m ident0 opts force))
                           (snd (effectiveCall m ident0 opts force)))))"
proof -
  let ?i = "fst (effectiveCall m ident0 opts force)"
  let ?o = "snd (effectiveCall m ident0 opts force)"
  from resolveAsset_resolved [OF assms]
  obtain m' where r: "resolveAsset m ?i ?o = (Returned (outputPath m ?i (fingerprintOf '':'' m ?i ?o)), m')"
    and p: "pendingAssets m' = (pendingAssets m)(?i \<mapsto>
                \<lparr> p_path = outputPath m ?i (fingerprintOf '':'' m ?i ?o),
                  p_assets = map Own (constituents m ?i ?o),
                  p_dependencies = map Own (dependencyFiles m ?o), p_options = ?o \<rparr>)"
    by blast
  have a: "fst (assetPath m ident0 opts force) = Returned (outputPath m ?i (fingerprintOf '':'' m ?i ?o))"
    by (simp add: assetPath_effective r)
  have b: "pendingAssets (snd (assetPath m ident0 opts force)) ?i =
        Some \<lparr> p_path = outputPath m ?i (fingerprintOf '':'' m ?i ?o),
               p_assets = map Own (constituents m ?i ?o),
               p_dependencies = map Own (dependencyFiles m ?o), p_options = ?o \<rparr>"
    by (simp add: assetPath_effective r p)
  have c: "fingerprintOf '':'' m ?i ?o =
        slice0 (hashLength (options m))
          (hashString m
             (join_with '':'' (map (\<lambda>a. join_element (hash a)) (constituents m ?i ?o @ dependencyFiles m ?o)))
             (hashName (options m)))"
    by (simp add: fingerprintOf_def hashText_def [abs_def])
  have d: "fst (assetPath m2 ident2 opts2 force2) =
            Returned (outputPath m2 (fst (effectiveCall m2 ident2 opts2 force2)) (fingerprintOf '':'' m ?i ?o))"
    if h: "ordinary m2 (fst (effectiveCall m2 ident2 opts2 force2)) (snd (effectiveCall m2 ident2 opts2 force2))
          \<and> \<not> configFailure m2 (fst (effectiveCall m2 ident2 opts2 force2))
                (snd (effectiveCall m2 ident2 opts2 force2))
          \<and> hashString m2 = hashString m \<and> hashName (options m2) = hashName (options m)
          \<and> hashLength (options m2) = hashLength (options m)
          \<and> map hashText (constituents m2 (fst (effectiveCall m2 ident2 opts2 force2))
                             (snd (effectiveCall m2 ident2 opts2 force2))
                           @ dependencyFiles m2 (snd (effectiveCall m2 ident2 opts2 force2)))
              = map hashText (constituents m ?i ?o @ dependencyFiles m ?o)"
    for m2 ident2 opts2 force2
  proof -
    let ?i2 = "fst (effectiveCall m2 ident2 opts2 force2)"
    let ?o2 = "snd (effectiveCall m2 ident2 opts2 force2)"
    from h have o2: "ordinary m2 ?i2 ?o2" and c2: "\<not> configFailure m2 ?i2 ?o2" by simp_all
    from h have "fingerprintOf '':'' m2 ?i2 ?o2 = fingerprintOf '':'' m ?i ?o"
      by (simp add: fingerprintOf_def)
    with resolveAsset_resolved [OF o2 c2] show ?thesis
      by (auto simp: assetPath_effective)
  qed
  show ?thesis
    apply (rule conjI [OF a])
    apply (rule conjI [OF b])
    apply (rule conjI [OF c])
    apply (intro allI impI)
    apply (erule d)
    done
qed

theorem fingerprint_of_output_path_witness:
  "fst (assetPath demo ''all.js'' dependentOptions False) = Returned ''/asset-03-all.js''
   \<and> map_option (\<lambda>e. (map entryName (p_assets e), map entryName (p_dependencies e)))
         (pendingAssets (snd (assetPath demo ''all.js'' dependentOptions False)) ''all.js'')
       = Some ([Some ''jquery.js'', Some ''html5shiv.js''], [Some ''foo.less''])
   \<and> hashString demo (join_with '':'' [''82'', ''b0'', ''a2'']) (hashName (options demo)) = ''03''
   \<and> fst (assetPath demoCompressing ''Other.JS'' dependentOptions True) = Returned ''/asset-03-other.js''"
proof -
  have e: "effectiveCall demo ''all.js'' dependentOptions False = (''all.js'', dependentOptions)"
    by code_simp
  have h1: "ordinary demo (fst (effectiveCall demo ''all.js'' dependentOptions False))
              (snd (effectiveCall demo ''all.js'' dependentOptions False))" by code_simp
  have h2: "\<not> configFailure demo (fst (effectiveCall demo ''all.js'' dependentOptions False))
              (snd (effectiveCall demo ''all.js'' dependentOptions False))" by code_simp
  have h3a: "ordinary demoCompressing (fst (effectiveCall demoCompressing ''Other.JS'' dependentOptions True))
              (snd (effectiveCall demoCompressing ''Other.JS'' dependentOptions True))" by code_simp
  have h3b: "\<not> configFailure demoCompressing (fst (effectiveCall demoCompressing ''Other.JS'' dependentOptions True))
                (snd (effectiveCall demoCompressing ''Other.JS'' dependentOptions True))" by code_simp
  have h3c: "hashString demoCompressing = hashString demo" by (simp add: demoCompressing_def)
  have h3d: "hashName (options demoCompressing) = hashName (options demo)" by code_simp
  have h3e: "hashLength (options demoCompressing) = hashLength (options demo)" by code_simp
  have h3f: "map hashText (constituents demoCompressing (fst (effectiveCall demoCompressing ''Other.JS'' dependentOptions True))
                             (snd (effectiveCall demoCompressing ''Other.JS'' dependentOptions True))
                           @ dependencyFiles demoCompressing (snd (effectiveCall demoCompressing ''Other.JS'' dependentOptions True)))
              = map hashText
                  (constituents demo (fst (effectiveCall demo ''all.js'' dependentOptions False))
                     (snd (effectiveCall demo ''all.js'' dependentOptions False))
                   @ dependencyFiles demo (snd (effectiveCall demo ''all.js'' dependentOptions False)))"
    by code_simp
  note h3 = conjI [OF h3a conjI [OF h3b conjI [OF h3c conjI [OF h3d conjI [OF h3e h3f]]]]]
  note t = fingerprint_of_output_path [OF h1 h2]
  note t1 = t [THEN conjunct1]
  note t2 = t [THEN conjunct2, THEN conjunct1]
  note t3 = t [THEN conjunct2, THEN conjunct2, THEN conjunct1]
  note t4 = t [THEN conjunct2, THEN conjunct2, THEN conjunct2, rule_format, OF h3]
  have f: "fingerprintOf '':'' demo (fst (effectiveCall demo ''all.js'' dependentOptions False))
             (snd (effectiveCall demo ''all.js'' dependentOptions False)) = ''03''"
    by code_simp
  have r1: "fst (assetPath demo ''all.js'' dependentOptions False) = Returned ''/asset-03-all.js''"
    unfolding t1 by code_simp
  have r2: "map_option (\<lambda>e. (map entryName (p_assets e), map entryName (p_dependencies e)))
         (pendingAssets (snd (assetPath demo ''all.js'' dependentOptions False)) ''all.js'')
       = Some ([Some ''jquery.js'', Some ''html5shiv.js''], [Some ''foo.less''])"
    using t2 unfolding e fst_conv snd_conv by (simp add: comp_def) code_simp
  have r3: "hashString demo (join_with '':'' [''82'', ''b0'', ''a2'']) (hashName (options demo)) = ''03''"
    by code_simp
  have r4: "fst (assetPath demoCompressing ''Other.JS'' dependentOptions True) = Returned ''/asset-03-other.js''"
    unfolding t4 by code_simp
  from r1 r2 r3 r4 show ?thesis by (intro conjI)
qed

text \<open>
  The hashes are not concatenated as they are: for the bundle of \<^verbatim>\<open>jquery.js\<close> (hash
  \<^verbatim>\<open>82\<close>) and \<^verbatim>\<open>html5shiv.js\<close> (hash \<^verbatim>\<open>b0\<close>) the string hashed is \<^verbatim>\<open>82:b0\<close>, and the
  fingerprint in the path differs from the hash of \<^verbatim>\<open>82b0\<close>.  A name that objects
  inherit is taken for a constituent although it is no file, and adds the empty string to
  the list of hashes: for the bundle of \<^verbatim>\<open>constructor\<close> and \<^verbatim>\<open>jquery.js\<close> the string
  hashed is \<^verbatim>\<open>:82\<close>.
\<close>

theorem fingerprint_of_output_path_counterexample:
  "fst (assetPath demo ''all.js'' jsBundleOptions False) = Returned ''/asset-36-all.js''
   \<and> map hashText (constituents demo ''all.js'' jsBundleOptions @ dependencyFiles demo jsBundleOptions)
       = [''82'', ''b0'']
   \<and> hashString demo (join_with '':'' [''82'', ''b0'']) (hashName (options demo)) = ''36''
   \<and> hashString demo (concat [''82'', ''b0'']) (hashName (options demo)) = ''fc''
   \<and> slice0 (hashLength (options demo)) ''fc'' = ''fc''
   \<and> fingerprintOf [] demo ''all.js'' jsBundleOptions = ''fc''
   \<and> outputPath demo ''all.js'' (fingerprintOf [] demo ''all.js'' jsBundleOptions) = ''/asset-fc-all.js''
   \<and> \<not> ordinary demo ''bundle.js'' objectBundleOptions
   \<and> map hashText (constituents demo ''bundle.js'' objectBundleOptions) = [''82'']
   \<and> map_option (\<lambda>e. assetHashes (p_assets e @ p_dependencies e))
         (pendingAssets (snd (assetPath demo ''bundle.js'' objectBundleOptions False)) ''bundle.js'')
       = Some '':82''
   \<and> fst (assetPath demo ''bundle.js'' objectBundleOptions False)
       = Returned (outputPath demo ''bundle.js'' (hashString demo '':82'' (hashName (options demo))))
   \<and> hashString demo '':82'' (hashName (options demo)) \<noteq> hashString demo ''82'' (hashName (options demo))"
  by code_simp

section \<open>Properties of the compiler fallback\<close>

text \<open>
  For names that objects do not inherit the fallback is as the claim has it.  A file name
  that is not in the index (in lower case) is replaced by the first of its fallback names
  that is: the base name with the source extension of each compiler in the list of the
  file's extension, in the order of the list.  When none is in the index, resolution fails
  with the message that names the file and, between quotes, every fallback name tried.  The
  loop resolves the names in order and fails with the error of the first name that cannot
  be resolved.  The constructor lists the compilers of an output extension in the order of
  the options, and \<open>registerCompiler\<close> appends to the list.
\<close>

lemma reverseIndex_lists:
  assumes "\<forall>(ext, c)\<in>set cs. \<not> inherited (c_output c)"
  shows "\<exists>idx'. reverseIndex cs idx = Done idx'
           \<and> (\<forall>ext. (case idx' ext of None \<Rightarrow> [] | Some l \<Rightarrow> l) =
                  (case idx ext of None \<Rightarrow> [] | Some l \<Rightarrow> l)
                  @ map (\<lambda>(k, c). c\<lparr>c_extname := k\<rparr>) (filter (\<lambda>(k, c). c_output c = ext) cs))"
  using assms
proof (induction cs arbitrary: idx)
  case Nil
  then show ?case by simp
next
  case (Cons kc cs)
  obtain k c where kc: "kc = (k, c)" by (cases kc)
  from Cons.prems kc have ni: "\<not> inherited (c_output c)"
    and rest: "\<forall>(ext, c)\<in>set cs. \<not> inherited (c_output c)" by auto
  let ?idx1 = "idx(c_output c \<mapsto> (case idx (c_output c) of None \<Rightarrow> [] | Some l \<Rightarrow> l) @ [c\<lparr>c_extname := k\<rparr>])"
  have s: "reverseIndex (kc # cs) idx = reverseIndex cs ?idx1"
    by (cases "idx (c_output c)") (simp_all add: kc Let_def getProperty_ordinary [OF ni])
  from Cons.IH [OF rest, of ?idx1] obtain idx' where
    d: "reverseIndex cs ?idx1 = Done idx'"
    and l: "\<forall>ext. (case idx' ext of None \<Rightarrow> [] | Some l \<Rightarrow> l) =
                  (case ?idx1 ext of None \<Rightarrow> [] | Some l \<Rightarrow> l)
                  @ map (\<lambda>(k, c). c\<lparr>c_extname := k\<rparr>) (filter (\<lambda>(k, c). c_output c = ext) cs)"
    by blast
  show ?case
    unfolding s d using l by (auto simp: kc)
qed

lemma resolveFilenames_Inr:
  "resolveFilenames m ident opts fs acc = Inr found \<Longrightarrow>
     \<exists>new. found = acc @ new \<and> list_all2 (\<lambda>f a. resolveFilename m ident opts f = Inr a) fs new"
proof (induction fs arbitrary: acc)
  case Nil
  then show ?case by simp
next
  case (Cons f fs)
  then obtain a where a: "resolveFilename m ident opts f = Inr a"
    and r: "resolveFilenames m ident opts fs (acc @ [a]) = Inr found"
    by (auto split: sum.splits)
  from Cons.IH [OF r] obtain new where "found = (acc @ [a]) @ new"
    and "list_all2 (\<lambda>f a. resolveFilename m ident opts f = Inr a) fs new" by blast
  with a show ?case by (intro exI [of _ "a # new"]) simp
qed

lemma resolveFilenames_Inl:
  "resolveFilenames m ident opts fs acc = Inl msg \<Longrightarrow>
     \<exists>f\<in>set fs. resolveFilename m ident opts f = Inl msg"
  by (induction fs arbitrary: acc) (auto split: sum.splits)

lemma compiler_fallback:
  "(\<not> inherited (toLowerCase f0)
      \<and> list_all (\<lambda>u. \<not> inherited u) (fallbackCandidates m (toLowerCase f0)) \<longrightarrow>
      resolveFilename m ident opts f0 =
        (case constituent m f0 of
           Some a \<Rightarrow> Inr (Own a)
         | None \<Rightarrow>
             Inl (''Asset '' @ quoted (toLowerCase f0) @ '' could not be found''
                  @ (if given (opt_include opts) \<noteq> None
                     then '' when building asset '' @ quoted ident else [])
                  @ (if fallbackCandidates m (toLowerCase f0) = [] then []
                     else '' (tried ''
                          @ quoted (join_with (quoted '', '') (fallbackCandidates m (toLowerCase f0)))
                          @ '')''))))
   \<and> (\<forall>found. resolveFilenames m ident opts fs [] = Inr found \<longrightarrow>
         list_all2 (\<lambda>f a. resolveFilename m ident opts f = Inr a) fs found)
   \<and> (\<forall>msg. resolveFilenames m ident opts fs [] = Inl msg \<longrightarrow>
         list_ex (\<lambda>f. resolveFilename m ident opts f = Inl msg) fs)
   \<and> (\<forall>m0. newManager d mopts hs hf mm fmt = Some (Done m0)
            \<and> (\<forall>(ext, c)\<in>set (compilers mopts). \<not> inherited (c_output c)) \<longrightarrow>
         (case reverseCompilerIndex m0 ext of None \<Rightarrow> [] | Some l \<Rightarrow> l) =
           map (\<lambda>(k, c). c\<lparr>c_extname := k\<rparr>) (filter (\<lambda>(k, c). c_output c = ext) (compilers mopts)))
   \<and> (\<not> inherited outputExt \<longrightarrow>
         fst (registerCompiler m inputExt outputExt f) = Returned ()
         \<and> reverseCompilerIndex (snd (registerCompiler m inputExt outputExt f)) =
             (reverseCompilerIndex m)(outputExt \<mapsto>
                filter (\<lambda>c. c_extname c \<noteq> inputExt)
                  (case reverseCompilerIndex m outputExt of None \<Rightarrow> [] | Some cs \<Rightarrow> cs)
                @ [\<lparr> c_output = outputExt, c_compile = f, c_extname = inputExt \<rparr>]))"
proof -
  have p1: "resolveFilename m ident opts f0 =
        (case constituent m f0 of
           Some a \<Rightarrow> Inr (Own a)
         | None \<Rightarrow>
             Inl (''Asset '' @ quoted (toLowerCase f0) @ '' could not be found''
                  @ (if given (opt_include opts) \<noteq> None
                     then '' when building asset '' @ quoted ident else [])
                  @ (if fallbackCandidates m (toLowerCase f0) = [] then []
                     else '' (tried ''
                          @ quoted (join_with (quoted '', '') (fallbackCandidates m (toLowerCase f0)))
                          @ '')'')))"
    if "\<not> inherited (toLowerCase f0)
      \<and> list_all (\<lambda>u. \<not> inherited u) (fallbackCandidates m (toLowerCase f0))"
    using resolveFilename_ordinary [OF conjunct1 [OF that] conjunct2 [OF that]] .
  have p3: "list_all2 (\<lambda>f a. resolveFilename m ident opts f = Inr a) fs found"
    if "resolveFilenames m ident opts fs [] = Inr found" for found
    using resolveFilenames_Inr [OF that] by auto
  have p4: "list_ex (\<lambda>f. resolveFilename m ident opts f = Inl msg) fs"
    if "resolveFilenames m ident opts fs [] = Inl msg" for msg
    using resolveFilenames_Inl [OF that] by (auto simp: list_ex_iff)
  have p5: "(case reverseCompilerIndex m0 ext of None \<Rightarrow> [] | Some l \<Rightarrow> l) =
           map (\<lambda>(k, c). c\<lparr>c_extname := k\<rparr>) (filter (\<lambda>(k, c). c_output c = ext) (compilers mopts))"
    if h: "newManager d mopts hs hf mm fmt = Some (Done m0)
            \<and> (\<forall>(ext, c)\<in>set (compilers mopts). \<not> inherited (c_output c))" for m0
  proof -
    from reverseIndex_lists [OF conjunct2 [OF h], of Map.empty] obtain idx' where
      d: "reverseIndex (compilers mopts) Map.empty = Done idx'"
      and l: "\<forall>ext. (case idx' ext of None \<Rightarrow> [] | Some l \<Rightarrow> l) =
                  map (\<lambda>(k, c). c\<lparr>c_extname := k\<rparr>) (filter (\<lambda>(k, c). c_output c = ext) (compilers mopts))"
      by auto
    from conjunct1 [OF h] d have "reverseCompilerIndex m0 = idx'"
      by (auto simp: newManager_def split: option.splits)
    with l show ?thesis by simp
  qed
  have p6: "fst (registerCompiler m inputExt outputExt f) = Returned ()
         \<and> reverseCompilerIndex (snd (registerCompiler m inputExt outputExt f)) =
             (reverseCompilerIndex m)(outputExt \<mapsto>
                filter (\<lambda>c. c_extname c \<noteq> inputExt)
                  (case reverseCompilerIndex m outputExt of None \<Rightarrow> [] | Some cs \<Rightarrow> cs)
                @ [\<lparr> c_output = outputExt, c_compile = f, c_extname = inputExt \<rparr>])"
    if ni: "\<not> inherited outputExt"
    by (cases "reverseCompilerIndex m outputExt")
       (simp_all add: registerCompiler_def Let_def getProperty_ordinary [OF ni])
  show ?thesis
    apply (rule conjI)
     apply (rule impI)
     apply (erule p1)
    apply (rule conjI)
     apply (intro allI impI)
     apply (erule p3)
    apply (rule conjI)
     apply (intro allI impI)
     apply (erule p4)
    apply (rule conjI)
     apply (intro allI impI)
     apply (erule p5)
    apply (rule impI)
    apply (erule p6)
    done
qed

text \<open>
  C5.  The claim has every file name that is absent from the asset map resolved through
  the compilers of its extension, or else the resolution fail with an error that names
  it.  The code tests \<^verbatim>\<open>filename in this.assets\<close> on an object made with \<^verbatim>\<open>{}\<close>, which
  also holds for the names every object inherits.  Take the manager the constructor makes
  for the default options with the compiler of \<^verbatim>\<open>.less\<close>, four files indexed and a
  listener registered.  No file is indexed under \<^verbatim>\<open>constructor\<close> and no compiler
  produces its extension, yet a bundle that includes it resolves without an error: the
  function \<^verbatim>\<open>Object\<close> is taken for its constituent file, and the fingerprint is the hash
  of the empty string.  A missing name that objects do not
  inherit fails as the claim has it, and \<^verbatim>\<open>foo.css\<close> resolves to a hashed path through the
  compiler of \<^verbatim>\<open>foo.less\<close>.
\<close>

theorem inherited_name_resolves_without_file:
  "newManager ''/srv/static'' demoOptions checksum checksum suffixMatch substitute
     = Some (Done (demo\<lparr>assets := [], errorListeners := False\<rparr>))
   \<and> map_of (assets demo) ''constructor'' = None
   \<and> fallbackCandidates demo ''constructor'' = []
   \<and> constituent demo ''constructor'' = None
   \<and> resolveFilename demo ''bundle.js'' constructorOptions ''constructor'' = Inr (Inherited ''constructor'')
   \<and> fst (assetPath demo ''bundle.js'' constructorOptions False) = Returned ''/asset-00-bundle.js''
   \<and> events (snd (assetPath demo ''bundle.js'' constructorOptions False)) = []
   \<and> map_option p_assets (pendingAssets (snd (assetPath demo ''bundle.js'' constructorOptions False)) ''bundle.js'')
       = Some [Inherited ''constructor'']
   \<and> hashString demo [] (hashName (options demo)) = ''00''
   \<and> constituent demo ''missing.css'' = None
   \<and> fallbackCandidates demo ''missing.css'' = [''missing.less'']
   \<and> fst (assetPath demo ''bundle.js'' missingOptions False) = Returned []
   \<and> events (snd (assetPath demo ''bundle.js'' missingOptions False))
       = [ErrorEvent (''Asset '' @ quoted ''missing.css'' @ '' could not be found when building asset ''
                      @ quoted ''bundle.js'' @ '' (tried '' @ quoted ''missing.less'' @ '')'')]
   \<and> map_of (assets demo) ''foo.css'' = None
   \<and> fallbackCandidates demo ''foo.css'' = [''foo.less'']
   \<and> fst (assetPath demo ''foo.css'' noOptions False) = Returned ''/asset-93-foo.css''
   \<and> map_option p_assets (pendingAssets (snd (assetPath demo ''foo.css'' noOptions False)) ''foo.css'')
       = Some [Own \<lparr> name = ''foo.less'', mtime = 3, hash = Some (JStr ''a2'') \<rparr>]"
  by (rule conjI)
     (simp add: newManager_def demo_def demoOptions_def lessCompiler_def compiledPatternSource_def
        escapeRegex_def getProperty_def inherited_def objectPrototype_def,
      code_simp)

section \<open>Properties of the URL prefix\<close>

text \<open>
  C1.  The claim has the prefix of the call win over the configured \<^verbatim>\<open>urlPrefix\<close>.  The
  code takes \<^verbatim>\<open>this.options.urlPrefix || options.prefix\<close>: with both set, the URL carries
  the configured prefix (its trailing separator collapsed), not the one of the call.  With
  no configured prefix the prefix of the call is used.
\<close>

theorem assetUrl_global_prefix_wins:
  "urlPrefix (options cdnManager) = ''http://cdn.foo.com/''
   \<and> opt_prefix elsewhereOptions = Some ''http://elsewhere.com''
   \<and> fst (assetPath cdnManager ''jquery.js'' elsewhereOptions False) = Returned ''/asset-6a-jquery.js''
   \<and> fst (assetUrl cdnManager ''jquery.js'' (Some elsewhereOptions) False)
       = Returned ''http://cdn.foo.com/asset-6a-jquery.js''
   \<and> fst (assetUrl demo ''jquery.js'' (Some elsewhereOptions) False)
       = Returned ''http://elsewhere.com/asset-6a-jquery.js''"
  by code_simp

section \<open>Properties of repeated resolution\<close>

text \<open>
  C6.  The claim has two calls with the same identifier and options return the same path.
  The second call finds the pending entry and calls \<open>assetPath\<close> again with the
  identifier it has remapped, and that call remaps once more.  When the output extension
  of the identifier's compiler is the source extension of another compiler, the second call
  resolves another identifier: here the first call for \<^verbatim>\<open>foo.less\<close> returns the path of
  \<^verbatim>\<open>foo.css\<close>, the second looks for \<^verbatim>\<open>foo.out\<close>, fails and returns the empty string.
  Without such a chain of compilers the two calls agree.
\<close>

theorem assetPath_twice_chained_compilers:
  "map fst (compilers (options chainManager)) = [''.less'', ''.css'']
   \<and> fst (assetPath chainManager ''foo.less'' noOptions False) = Returned ''/asset-93-foo.css''
   \<and> fst (assetPath (snd (assetPath chainManager ''foo.less'' noOptions False)) ''foo.less'' noOptions False)
       = Returned []
   \<and> events (snd (assetPath (snd (assetPath chainManager ''foo.less'' noOptions False)) ''foo.less'' noOptions False))
       = [ErrorEvent (''Asset '' @ quoted ''foo.out'' @ '' could not be found (tried '' @ quoted ''foo.css'' @ '')'')]
   \<and> fst (assetPath demo ''foo.less'' noOptions False) = Returned ''/asset-93-foo.css''
   \<and> fst (assetPath (snd (assetPath demo ''foo.less'' noOptions False)) ''foo.less'' noOptions False)
       = Returned ''/asset-93-foo.css''"
  by code_simp

section \<open>Properties of resolution failures\<close>




end
